theory Spec2Isabelle
  imports Main
begin

section \<open>Quota ledger (models/Quota.js)\<close>

text \<open>
  A Quota document is one record per user and calendar day. The calendar day
  (\<^verbatim>\<open>new Date(); setHours(0,0,0,0)\<close>) is a day number; \<open>resetAt\<close> is the start of the
  following day. Object ids are natural numbers handed out by the collection.
\<close>

type_synonym user_id = nat
type_synonym day = int

record quota =
  q_id :: nat
  q_userId :: user_id
  q_date :: day
  generationsUsed :: int
  generationsLimit :: int
  resetAt :: day

record quota_db =
  quotas :: "quota list"
  next_id :: nat

text \<open>
  The two environment variables, as \<^verbatim>\<open>parseInt\<close> reads them: \<open>None\<close> is NaN
  (variable unset or not a number).
\<close>

record env =
  PAID_TIER_DAILY_LIMIT :: "int option"
  FREE_TIER_DAILY_LIMIT :: "int option"

datatype error =
  ValidationError string
  | DuplicateKey
  | LimitExceeded

text \<open>\<^verbatim>\<open>parseInt(v) || d\<close>: NaN and 0 are falsy.\<close>

definition or_default :: "int option \<Rightarrow> int \<Rightarrow> int" where
  "or_default v d = (case v of None \<Rightarrow> d | Some n \<Rightarrow> if n = 0 then d else n)"

definition tierLimit :: "env \<Rightarrow> string \<Rightarrow> int" where
  "tierLimit e userTier =
     (if userTier = ''paid'' then or_default (PAID_TIER_DAILY_LIMIT e) 50
      else or_default (FREE_TIER_DAILY_LIMIT e) 5)"

text \<open>A JavaScript default parameter: \<^verbatim>\<open>userTier = 'free'\<close> applies when the argument is absent.\<close>

definition tier_arg :: "string option \<Rightarrow> string" where
  "tier_arg userTier = (case userTier of None \<Rightarrow> ''free'' | Some t \<Rightarrow> t)"

definition findOne :: "quota_db \<Rightarrow> user_id \<Rightarrow> day \<Rightarrow> quota option" where
  "findOne db uid d = find (\<lambda>q. q_userId q = uid \<and> q_date q = d) (quotas db)"

text \<open>
  \<^verbatim>\<open>Quota.create\<close>: the schema validators (\<open>generationsUsed\<close> min 0, \<open>generationsLimit\<close> min 1)
  run first, then the insert, which the unique index on (userId, date) may refuse.
\<close>

definition create_quota ::
  "quota_db \<Rightarrow> user_id \<Rightarrow> day \<Rightarrow> int \<Rightarrow> int \<Rightarrow> (error + quota) \<times> quota_db" where
  "create_quota db uid d used lim =
     (if used < 0 then (Inl (ValidationError ''Generations used cannot be negative''), db)
      else if lim < 1 then (Inl (ValidationError ''Generations limit must be at least 1''), db)
      else if findOne db uid d \<noteq> None then (Inl DuplicateKey, db)
      else
        let q = \<lparr>q_id = next_id db, q_userId = uid, q_date = d, generationsUsed = used,
                 generationsLimit = lim, resetAt = d + 1\<rparr>
        in (Inr q, db\<lparr>quotas := quotas db @ [q], next_id := Suc (next_id db)\<rparr>))"

text \<open>
  \<^verbatim>\<open>quota.save()\<close> of a loaded document writes the modified path only
  (a \<^verbatim>\<open>$set\<close> on the document with that id), after validating it.
\<close>

definition set_limit :: "quota_db \<Rightarrow> nat \<Rightarrow> int \<Rightarrow> quota_db" where
  "set_limit db i lim =
     db\<lparr>quotas := map (\<lambda>r. if q_id r = i then r\<lparr>generationsLimit := lim\<rparr> else r) (quotas db)\<rparr>"

definition set_used :: "quota_db \<Rightarrow> nat \<Rightarrow> int \<Rightarrow> quota_db" where
  "set_used db i used =
     db\<lparr>quotas := map (\<lambda>r. if q_id r = i then r\<lparr>generationsUsed := used\<rparr> else r) (quotas db)\<rparr>"

definition save_limit :: "quota_db \<Rightarrow> quota \<Rightarrow> (error + quota) \<times> quota_db" where
  "save_limit db q =
     (if generationsLimit q < 1
      then (Inl (ValidationError ''Generations limit must be at least 1''), db)
      else (Inr q, set_limit db (q_id q) (generationsLimit q)))"

definition save_used :: "quota_db \<Rightarrow> quota \<Rightarrow> (error + quota) \<times> quota_db" where
  "save_used db q =
     (if generationsUsed q < 0
      then (Inl (ValidationError ''Generations used cannot be negative''), db)
      else (Inr q, set_used db (q_id q) (generationsUsed q)))"

definition getTodayQuota ::
  "env \<Rightarrow> quota_db \<Rightarrow> day \<Rightarrow> user_id \<Rightarrow> string option \<Rightarrow> (error + quota) \<times> quota_db" where
  "getTodayQuota e db today uid userTier =
     (let lim = tierLimit e (tier_arg userTier) in
      case findOne db uid today of
        None \<Rightarrow> create_quota db uid today 0 lim
      | Some quota \<Rightarrow>
          if generationsLimit quota \<noteq> lim
          then save_limit db (quota\<lparr>generationsLimit := lim\<rparr>)
          else (Inr quota, db))"

definition canUserGenerate ::
  "env \<Rightarrow> quota_db \<Rightarrow> day \<Rightarrow> user_id \<Rightarrow> string option \<Rightarrow> (error + bool) \<times> quota_db" where
  "canUserGenerate e db today uid userTier =
     (case getTodayQuota e db today uid userTier of
        (Inl err, db') \<Rightarrow> (Inl err, db')
      | (Inr quota, db') \<Rightarrow> (Inr (generationsUsed quota < generationsLimit quota), db'))"

definition incrementUsage ::
  "env \<Rightarrow> quota_db \<Rightarrow> day \<Rightarrow> user_id \<Rightarrow> string option \<Rightarrow> (error + quota) \<times> quota_db" where
  "incrementUsage e db today uid userTier =
     (case getTodayQuota e db today uid userTier of
        (Inl err, db') \<Rightarrow> (Inl err, db')
      | (Inr quota, db') \<Rightarrow>
          if generationsUsed quota \<ge> generationsLimit quota then (Inl LimitExceeded, db')
          else save_used db' (quota\<lparr>generationsUsed := generationsUsed quota + 1\<rparr>))"


section \<open>Strings\<close>

text \<open>
  Strings are lists of code units below 256. The functions below are the JavaScript
  string operations the routes and the provider client use.
\<close>

fun starts_with :: "string \<Rightarrow> string \<Rightarrow> bool" where
  "starts_with s [] = True"
| "starts_with [] (p # ps) = False"
| "starts_with (c # cs) (p # ps) = (c = p \<and> starts_with cs ps)"

text \<open>\<^verbatim>\<open>String.prototype.includes\<close>.\<close>

fun str_includes :: "string \<Rightarrow> string \<Rightarrow> bool" where
  "str_includes [] p = (p = [])"
| "str_includes (c # cs) p = (starts_with (c # cs) p \<or> str_includes cs p)"

text \<open>
  Matching under the regular-expression flag \<^verbatim>\<open>i\<close>: two code units match when their
  canonical (upper-case) forms agree. The patterns of this program are ASCII, and no code
  unit from 128 on canonicalises to an ASCII one, so upper-casing a-z decides the match.
\<close>

definition ascii_upper :: "char \<Rightarrow> char" where
  "ascii_upper c =
     (case map_of (zip ''abcdefghijklmnopqrstuvwxyz'' ''ABCDEFGHIJKLMNOPQRSTUVWXYZ'') c of
        None \<Rightarrow> c
      | Some u \<Rightarrow> u)"

fun starts_with_ci :: "string \<Rightarrow> string \<Rightarrow> bool" where
  "starts_with_ci s [] = True"
| "starts_with_ci [] (p # ps) = False"
| "starts_with_ci (c # cs) (p # ps) = (ascii_upper c = ascii_upper p \<and> starts_with_ci cs ps)"

text \<open>
  The replacement text of \<^verbatim>\<open>String.prototype.replace\<close> (GetSubstitution, for a pattern
  without capture groups): \<^verbatim>\<open>$$\<close> is a dollar sign, \<^verbatim>\<open>$&\<close> the matched text,
  \<^verbatim>\<open>$`\<close> the text before the match, \<^verbatim>\<open>$'\<close> the text after it; any other dollar sign
  stands for itself.
\<close>

fun get_substitution :: "string \<Rightarrow> string \<Rightarrow> string \<Rightarrow> string \<Rightarrow> string" where
  "get_substitution m b a [] = []"
| "get_substitution m b a [c] = [c]"
| "get_substitution m b a (c # d # r) =
     (if c = CHR ''$'' then
        (if d = CHR ''$'' then CHR ''$'' # get_substitution m b a r
         else if d = CHR ''&'' then m @ get_substitution m b a r
         else if d = CHR 0x60 then b @ get_substitution m b a r
         else if d = CHR 0x27 then a @ get_substitution m b a r
         else c # get_substitution m b a (d # r))
      else c # get_substitution m b a (d # r))"

text \<open>
  \<^verbatim>\<open>s.replace(/pat/g, rep)\<close> and \<^verbatim>\<open>s.replace(/pat/gi, rep)\<close> for a literal, non-empty
  pattern: a scan from the left; \<open>skip\<close> counts the code units of the current match still
  to pass over, \<open>pre\<close> is the text already passed.
\<close>

fun replace_scan ::
  "bool \<Rightarrow> string \<Rightarrow> string \<Rightarrow> nat \<Rightarrow> string \<Rightarrow> string \<Rightarrow> string" where
  "replace_scan ci pat rep skip pre [] = []"
| "replace_scan ci pat rep (Suc k) pre (c # cs) = replace_scan ci pat rep k (pre @ [c]) cs"
| "replace_scan ci pat rep 0 pre (c # cs) =
     (if (if ci then starts_with_ci (c # cs) pat else starts_with (c # cs) pat)
      then get_substitution (take (length pat) (c # cs)) pre (drop (length pat) (c # cs)) rep
           @ replace_scan ci pat rep (length pat - 1) (pre @ [c]) cs
      else c # replace_scan ci pat rep 0 (pre @ [c]) cs)"

definition replace_all :: "bool \<Rightarrow> string \<Rightarrow> string \<Rightarrow> string \<Rightarrow> string" where
  "replace_all ci pat rep s = replace_scan ci pat rep 0 [] s"

text \<open>\<^verbatim>\<open>s.replace(pat, rep)\<close> with a string pattern: the first occurrence only.\<close>

fun replace_first_scan :: "string \<Rightarrow> string \<Rightarrow> string \<Rightarrow> string \<Rightarrow> string" where
  "replace_first_scan pat rep pre [] = []"
| "replace_first_scan pat rep pre (c # cs) =
     (if starts_with (c # cs) pat
      then get_substitution pat pre (drop (length pat) (c # cs)) rep @ drop (length pat) (c # cs)
      else c # replace_first_scan pat rep (pre @ [c]) cs)"

definition replace_first :: "string \<Rightarrow> string \<Rightarrow> string \<Rightarrow> string" where
  "replace_first pat rep s = replace_first_scan pat rep [] s"

text \<open>\<^verbatim>\<open>String.prototype.trim\<close>: white space among the code units below 256.\<close>

definition is_space :: "char \<Rightarrow> bool" where
  "is_space c = ((of_char c :: nat) \<in> {9, 10, 11, 12, 13, 32, 160})"

definition trim :: "string \<Rightarrow> string" where
  "trim s = rev (dropWhile is_space (rev (dropWhile is_space s)))"


section \<open>Prompt resolution (routes/generate.js, image-to-image, preset handling)\<close>

text \<open>
  A preset as the route reads it: \<open>id\<close>, \<open>name\<close>, \<open>category\<close> and \<open>main_prompt\<close>;
  a property that may be missing is an option.
\<close>

record preset =
  p_id :: string
  p_name :: "string option"
  p_category :: "string option"
  main_prompt :: "string option"

definition FALLBACK_PRESETS :: "(string \<times> preset) list" where
  "FALLBACK_PRESETS =
     [(''realistic-portrait'',
       \<lparr>p_id = ''realistic-portrait'', p_name = Some ''Realistic Portrait'',
        p_category = Some ''portrait'',
        main_prompt = Some ''professional portrait photography, high quality, realistic, detailed facial features, natural lighting''\<rparr>),
      (''artistic-landscape'',
       \<lparr>p_id = ''artistic-landscape'', p_name = Some ''Artistic Landscape'',
        p_category = Some ''landscape'',
        main_prompt = Some ''beautiful landscape, artistic style, vibrant colors, detailed scenery, professional photography''\<rparr>),
      (''modern-architecture'',
       \<lparr>p_id = ''modern-architecture'', p_name = Some ''Modern Architecture'',
        p_category = Some ''architecture'',
        main_prompt = Some ''modern architecture, contemporary design, clean lines, professional architectural photography''\<rparr>)]"

text \<open>A string value is truthy when it is present and not empty.\<close>

definition truthy :: "string option \<Rightarrow> bool" where
  "truthy v = (case v of None \<Rightarrow> False | Some s \<Rightarrow> s \<noteq> [])"

text \<open>A value spliced into a template literal or handed to \<^verbatim>\<open>RegExp.test\<close>.\<close>

definition js_string :: "string option \<Rightarrow> string" where
  "js_string v = (case v of None \<Rightarrow> ''undefined'' | Some s \<Rightarrow> s)"

definition matches_preset :: "string \<Rightarrow> preset \<Rightarrow> bool" where
  "matches_preset preset p = (p_id p = preset \<or> p_name p = Some preset)"

text \<open>
  The lookup: the loaded catalogue first, then the built-in table by key, then the
  built-in table by id or name. (The table is read by its own keys.)
\<close>

definition find_preset :: "preset list \<Rightarrow> string \<Rightarrow> preset option" where
  "find_preset allPrompts preset =
     (case find (matches_preset preset) allPrompts of
        Some p \<Rightarrow> Some p
      | None \<Rightarrow>
          (case map_of FALLBACK_PRESETS preset of
             Some p \<Rightarrow> Some p
           | None \<Rightarrow> find (matches_preset preset) (map snd FALLBACK_PRESETS)))"

text \<open>The image placeholder patterns, in the order of the source; \<open>True\<close> is the flag \<^verbatim>\<open>i\<close>.\<close>

definition imagePlaceholderPatterns :: "(bool \<times> string) list" where
  "imagePlaceholderPatterns =
     [(True, ''{image}''), (True, ''{image_url}''), (True, ''{image_path}''), (False, ''[IMAGE]'')]"

definition apply_preset :: "preset \<Rightarrow> string \<Rightarrow> string \<Rightarrow> string" where
  "apply_preset presetData prompt uploadedImageUrl =
     (let base0 = (if truthy (main_prompt presetData) then js_string (main_prompt presetData) else []);
          base1 = foldl (\<lambda>base (ci, pat). replace_all ci pat uploadedImageUrl base)
                    base0 imagePlaceholderPatterns;
          base2 = (if str_includes base1 ''{prompt}''
                   then replace_first ''{prompt}'' prompt base1 else base1);
          base3 = (if \<not> str_includes base2 uploadedImageUrl
                   then trim (base2 @ '', reference image: '' @ uploadedImageUrl) else base2);
          base4 = (if \<not> str_includes (js_string (main_prompt presetData)) ''{prompt}''
                      \<and> prompt \<noteq> [] \<and> trim prompt \<noteq> []
                   then base3 @ '', '' @ prompt else base3)
      in base4)"

definition or_else :: "string option \<Rightarrow> string \<Rightarrow> string" where
  "or_else v d = (if truthy v then js_string v else d)"

text \<open>
  The result is the final prompt and the normalised preset name. The catalogue is
  \<open>None\<close> when \<^verbatim>\<open>promptMatcher.getAllPrompts()\<close> throws.
\<close>

definition resolve_prompt ::
  "preset list option \<Rightarrow> string \<Rightarrow> string option \<Rightarrow> string \<Rightarrow> string \<times> string" where
  "resolve_prompt catalog prompt preset uploadedImageUrl =
     (if truthy preset then
        (case catalog of
           None \<Rightarrow> (prompt @ '', reference image: '' @ uploadedImageUrl, or_else preset ''custom'')
         | Some allPrompts \<Rightarrow>
             (case find_preset allPrompts (js_string preset) of
                Some presetData \<Rightarrow>
                  (apply_preset presetData prompt uploadedImageUrl,
                   or_else (p_name presetData) (or_else (p_category presetData) (js_string preset)))
              | None \<Rightarrow>
                  (prompt @ '', reference image: '' @ uploadedImageUrl, or_else preset ''custom'')))
      else (prompt @ '', reference image: '' @ uploadedImageUrl, or_else preset ''custom''))"


section \<open>Generation records (models/Generation.js)\<close>

datatype status = Processing | Completed | Failed

record generation =
  g_id :: nat
  g_userId :: user_id
  originalImageUrl :: "string option"
  generatedImageUrl :: "string option"
  g_prompt :: string
  presetUsed :: string
  status :: status
  errorMessage :: "string option"
  processingStartTime :: "int option"
  processingEndTime :: "int option"
  processingTime :: "int option"

text \<open>
  Times are milliseconds. \<open>processingTime\<close> is \<^verbatim>\<open>metadata.processingTime\<close>. A document in
  memory carries, next to its fields, whether \<^verbatim>\<open>isModified('status')\<close> holds: a status
  given to the constructor of a new document counts as modified, a schema default does
  not, and an assignment to a loaded document does when it changes the value.
\<close>

definition presetUsed_enum :: "string list" where
  "presetUsed_enum =
     [''portrait-enhancement'', ''artistic-landscape'', ''modern-architecture'',
      ''fantasy-character'', ''abstract-geometry'', ''product-shot'', ''editing'',
      ''background'', ''retouch'', ''portrait'', ''lighting'', ''90s movie'', ''1970s suit'',
      ''black and white close-up portrait'', ''Paris Travel'', ''Statue of Liberty'',
      ''Taj Mahal at sunrise'', ''Great Wall of China'', ''Eiffel Tower'',
      ''top of the Hollywood Sign'', ''reimagined in the 90s'',
      ''80s character with big hair'', ''1970s disco look'', ''custom'']"

text \<open>The schema validators of a new document: the prompt is required and bounded, the preset is one of the enumeration.\<close>

definition validate_generation :: "generation \<Rightarrow> error option" where
  "validate_generation g =
     (if g_prompt g = [] then Some (ValidationError ''Prompt is required'')
      else if length (g_prompt g) > 2000 then Some (ValidationError ''Prompt is too long'')
      else if presetUsed g \<notin> set presetUsed_enum
      then Some (ValidationError ''presetUsed is not a valid enum value'')
      else None)"

text \<open>The pre-save middleware.\<close>

definition pre_save :: "int \<Rightarrow> bool \<Rightarrow> generation \<Rightarrow> generation" where
  "pre_save now status_modified g =
     (if status_modified \<and> (status g = Completed \<or> status g = Failed) then
        (let g1 = (if processingEndTime g = None then g\<lparr>processingEndTime := Some now\<rparr> else g)
         in case (processingTime g1, processingStartTime g1, processingEndTime g1) of
              (None, Some t0, Some t1) \<Rightarrow> g1\<lparr>processingTime := Some (t1 - t0)\<rparr>
            | (Some pt, Some t0, Some t1) \<Rightarrow>
                (if pt = 0 then g1\<lparr>processingTime := Some (t1 - t0)\<rparr> else g1)
            | _ \<Rightarrow> g1)
      else g)"

record gen_db =
  generations :: "generation list"
  gen_next_id :: nat

text \<open>
  \<^verbatim>\<open>new Generation({...})\<close>: the fields the image-to-image route passes, the schema defaults
  for the others (\<open>processingStartTime\<close> is \<^verbatim>\<open>Date.now\<close>); the status is optional, its
  default is \<^verbatim>\<open>'processing'\<close>. The id is given by the collection at the insert.
\<close>

definition new_generation ::
  "int \<Rightarrow> user_id \<Rightarrow> string option \<Rightarrow> string option \<Rightarrow> string \<Rightarrow> string \<Rightarrow> status option
     \<Rightarrow> generation" where
  "new_generation now uid original generated preset_name final_prompt st =
     \<lparr>g_id = 0, g_userId = uid, originalImageUrl = original, generatedImageUrl = generated,
      g_prompt = final_prompt, presetUsed = preset_name,
      status = (case st of None \<Rightarrow> Processing | Some v \<Rightarrow> v),
      errorMessage = None, processingStartTime = Some now, processingEndTime = None,
      processingTime = None\<rparr>"

text \<open>
  \<^verbatim>\<open>save()\<close> of a new document: validation, the pre-save middleware, the insert.
  \<open>explicit_status\<close> says whether the constructor was given a status.
\<close>

definition save_new ::
  "int \<Rightarrow> gen_db \<Rightarrow> bool \<Rightarrow> generation \<Rightarrow> (error + generation) \<times> gen_db" where
  "save_new now db explicit_status g =
     (case validate_generation g of
        Some err \<Rightarrow> (Inl err, db)
      | None \<Rightarrow>
          let g' = (pre_save now explicit_status g)\<lparr>g_id := gen_next_id db\<rparr>
          in (Inr g', db\<lparr>generations := generations db @ [g'], gen_next_id := Suc (gen_next_id db)\<rparr>))"

text \<open>
  \<^verbatim>\<open>save()\<close> of a loaded document whose status, URLs, error message and times were
  assigned: the pre-save middleware, then the update of the stored document with that id.
  None of these paths has a validator that can fail.
\<close>

definition save_loaded :: "int \<Rightarrow> gen_db \<Rightarrow> bool \<Rightarrow> generation \<Rightarrow> generation \<times> gen_db" where
  "save_loaded now db status_modified g =
     (let g' = pre_save now status_modified g
      in (g', db\<lparr>generations := map (\<lambda>r. if g_id r = g_id g' then g' else r) (generations db)\<rparr>))"

text \<open>
  The instance methods. \<open>metadata\<close> is the \<open>processingTime\<close> entry of the argument of
  \<^verbatim>\<open>markCompleted\<close>, if it has one (the spread keeps the old entry otherwise).
\<close>

definition markCompleted ::
  "int \<Rightarrow> gen_db \<Rightarrow> generation \<Rightarrow> string \<Rightarrow> int option \<Rightarrow> generation \<times> gen_db" where
  "markCompleted now db g url metadata =
     save_loaded now db (status g \<noteq> Completed)
       (g\<lparr>generatedImageUrl := Some url, status := Completed, processingEndTime := Some now,
          processingTime := (case metadata of None \<Rightarrow> processingTime g | Some t \<Rightarrow> Some t)\<rparr>)"

definition markFailed :: "int \<Rightarrow> gen_db \<Rightarrow> generation \<Rightarrow> string \<Rightarrow> generation \<times> gen_db" where
  "markFailed now db g msg =
     save_loaded now db (status g \<noteq> Failed)
       (g\<lparr>status := Failed, errorMessage := Some msg, processingEndTime := Some now\<rparr>)"

definition terminal :: "status \<Rightarrow> bool" where
  "terminal s = (s = Completed \<or> s = Failed)"


section \<open>Provider client (services/geminiService.js, generateImageFromImage)\<close>

text \<open>
  What happens inside the \<^verbatim>\<open>try\<close> block: the response holds an inline image, which is
  written to a file of the given name; or it holds none; or something throws an error
  with a message and a code (either may be missing).
\<close>

datatype raw_outcome =
  ImageData string
  | NoImageData
  | Threw "string option" "string option"

text \<open>
  What the caller gets: a result object with its \<open>imageUrl\<close> (missing or empty in a
  malformed result) and its \<open>isPlaceholder\<close> flag, or an exception with a message.
\<close>

datatype service_result =
  Returned "string option" bool
  | ServiceThrew string

text \<open>\<^verbatim>\<open>error.message?.includes(s)\<close>.\<close>

definition msg_includes :: "string option \<Rightarrow> string \<Rightarrow> bool" where
  "msg_includes msg s = (case msg of None \<Rightarrow> False | Some m \<Rightarrow> str_includes m s)"

text \<open>\<^verbatim>\<open>generateLocalPlaceholder\<close>: the name of the file written, or \<open>None\<close> when writing it fails.\<close>

definition generateLocalPlaceholder :: "string option \<Rightarrow> service_result" where
  "generateLocalPlaceholder placeholder =
     (case placeholder of
        Some fileName \<Rightarrow> Returned (Some (''/uploads/'' @ fileName)) True
      | None \<Rightarrow> ServiceThrew ''Failed to generate placeholder image'')"

text \<open>
  The file holds two copies of the class. The \<^verbatim>\<open>catch\<close> block of the first rethrows
  every error; the one of the second answers connection errors with a local placeholder.
\<close>

definition service_catch :: "string option \<Rightarrow> service_result" where
  "service_catch msg =
     (if msg_includes msg ''API key'' then ServiceThrew ''Invalid or missing Gemini API key''
      else if msg_includes msg ''quota'' then ServiceThrew ''Gemini API quota exceeded''
      else if msg_includes msg ''safety'' then ServiceThrew ''Content blocked by safety filters''
      else ServiceThrew (''Image-to-image generation failed: '' @ js_string msg))"

definition service_catch_fallback ::
  "string option \<Rightarrow> string option \<Rightarrow> string option \<Rightarrow> service_result" where
  "service_catch_fallback msg code placeholder =
     (if msg_includes msg ''API key'' then ServiceThrew ''Invalid or missing Gemini API key''
      else if msg_includes msg ''quota'' then ServiceThrew ''Gemini API quota exceeded''
      else if msg_includes msg ''safety'' then ServiceThrew ''Content blocked by safety filters''
      else if msg_includes msg ''SSL'' \<or> msg_includes msg ''TLS''
              \<or> msg_includes msg ''ECONNRESET'' \<or> msg_includes msg ''ENOTFOUND''
              \<or> msg_includes msg ''certificate''
              \<or> code = Some ''ECONNRESET'' \<or> code = Some ''ENOTFOUND''
      then generateLocalPlaceholder placeholder
      else ServiceThrew (''Image-to-image generation failed: '' @ js_string msg))"

definition generateImageFromImage :: "raw_outcome \<Rightarrow> service_result" where
  "generateImageFromImage raw =
     (case raw of
        ImageData fileName \<Rightarrow> Returned (Some (''/uploads/'' @ fileName)) False
      | NoImageData \<Rightarrow> service_catch (Some ''No image data received from Gemini API'')
      | Threw msg code \<Rightarrow> service_catch msg)"

definition generateImageFromImage_fallback :: "raw_outcome \<Rightarrow> string option \<Rightarrow> service_result" where
  "generateImageFromImage_fallback raw placeholder =
     (case raw of
        ImageData fileName \<Rightarrow> Returned (Some (''/uploads/'' @ fileName)) False
      | NoImageData \<Rightarrow>
          service_catch_fallback (Some ''No image data received from Gemini API'') None placeholder
      | Threw msg code \<Rightarrow> service_catch_fallback msg code placeholder)"


section \<open>The image-to-image route (routes/generate.js)\<close>

record user =
  u_id :: user_id
  tier :: string

text \<open>
  The effects of a request, in the order they happen: the call of the provider client,
  the write of the quota document with the new count, the attempt to write the
  Generation document (with whether it was stored).
\<close>

datatype event =
  ProviderCalled
  | QuotaWritten nat int
  | GenerationWriteAttempted bool

record world =
  users :: "user list"
  quota_store :: quota_db
  gen_store :: gen_db
  log :: "event list"

text \<open>
  A request after the middlewares: the authenticated user's id, the body's \<open>prompt\<close>
  and \<open>preset\<close>, the stored file's name when a file was uploaded, and the protocol and
  host the URLs are built from. (The body's \<open>size\<close>, a string that is only handed on to
  the provider and stored with the record, is left out.)
\<close>

record request =
  r_user_id :: user_id
  r_prompt :: "string option"
  r_preset :: "string option"
  r_file :: "string option"
  r_protocol :: string
  r_host :: string

datatype gen_ref = ObjectId nat | TempId

record success_body =
  echoedInput :: bool
  generation_id :: gen_ref
  imageUrl :: "string option"
  res_originalImageUrl :: string
  res_prompt :: string
  res_generationsUsed :: int
  res_generationsLimit :: int
  res_generationsRemaining :: int

datatype response =
  Rejected nat string
  | Generated success_body

text \<open>The outer \<^verbatim>\<open>catch\<close> of the route, for the errors the stores raise.\<close>

definition error_message :: "error \<Rightarrow> string" where
  "error_message err =
     (case err of
        ValidationError m \<Rightarrow> m
      | DuplicateKey \<Rightarrow> ''E11000 duplicate key error''
      | LimitExceeded \<Rightarrow> ''Daily generation limit exceeded'')"

definition outer_catch :: "error \<Rightarrow> response" where
  "outer_catch err =
     (case err of
        ValidationError m \<Rightarrow>
          Rejected 400 ''Invalid data provided. Please check your input and try again.''
      | _ \<Rightarrow>
          (if str_includes (error_message err) ''quota'' \<or> str_includes (error_message err) ''limit''
           then Rejected 429 ''Generation limit exceeded. Please try again later or upgrade your plan.''
           else if str_includes (error_message err) ''file'' \<or> str_includes (error_message err) ''upload''
           then Rejected 400 ''File upload error. Please try uploading a different image.''
           else if str_includes (error_message err) ''network'' \<or> str_includes (error_message err) ''timeout''
           then Rejected 503 ''Network error. Please check your connection and try again.''
           else Rejected 500 ''Internal server error. Please try again later.''))"

text \<open>The route's own lookup of today's quota: found, or created with the limit 50 or 5.\<close>

definition route_quota :: "world \<Rightarrow> day \<Rightarrow> user \<Rightarrow> (error + quota) \<times> world" where
  "route_quota w today u =
     (case findOne (quota_store w) (u_id u) today of
        Some quota \<Rightarrow> (Inr quota, w)
      | None \<Rightarrow>
          (case create_quota (quota_store w) (u_id u) today 0 (if tier u = ''paid'' then 50 else 5) of
             (r, qdb) \<Rightarrow> (r, w\<lparr>quota_store := qdb\<rparr>)))"

definition upload_url :: "request \<Rightarrow> string \<Rightarrow> string" where
  "upload_url req filename = r_protocol req @ ''://'' @ r_host req @ ''/uploads/'' @ filename"

text \<open>\<^verbatim>\<open>/^https?:\/\/via\.placeholder\.com/i.test(imageUrl)\<close>.\<close>

definition is_mock_placeholder :: "string \<Rightarrow> bool" where
  "is_mock_placeholder url =
     (starts_with_ci url ''http://via.placeholder.com''
      \<or> starts_with_ci url ''https://via.placeholder.com'')"

text \<open>
  The processing step. \<open>gemini\<close> says whether the provider client was initialised
  (an API key is configured); \<open>svc\<close> is what its call gives when it is made.
\<close>

definition process_image ::
  "bool \<Rightarrow> service_result \<Rightarrow> string \<Rightarrow> world \<Rightarrow> (response + string) \<times> world" where
  "process_image gemini svc originalUrl w =
     (if \<not> gemini then (Inr originalUrl, w)
      else
        let w' = w\<lparr>log := log w @ [ProviderCalled]\<rparr> in
        case svc of
          ServiceThrew m \<Rightarrow> (Inr originalUrl, w')
        | Returned url ph \<Rightarrow>
            if \<not> truthy url then (Inl (Rejected 502 ''Invalid response from AI service''), w')
            else if is_mock_placeholder (js_string url) then (Inr originalUrl, w')
            else (Inr (js_string url), w'))"

text \<open>The quota update, the echo detection, the Generation record and the response.\<close>

definition commit ::
  "int \<Rightarrow> world \<Rightarrow> request \<Rightarrow> quota \<Rightarrow> string \<Rightarrow> string \<Rightarrow> string \<Rightarrow> string
     \<Rightarrow> response \<times> world" where
  "commit now w req quota url originalUrl finalPrompt normalizedPreset =
     (let quota' = quota\<lparr>generationsUsed := generationsUsed quota + 1\<rparr> in
      case save_used (quota_store w) quota' of
        (Inl err, qdb) \<Rightarrow> (outer_catch err, w\<lparr>quota_store := qdb\<rparr>)
      | (Inr q, qdb) \<Rightarrow>
          let w1 = w\<lparr>quota_store := qdb,
                     log := log w @ [QuotaWritten (q_id q) (generationsUsed q)]\<rparr>;
              echoed = (url = originalUrl);
              g = new_generation now (r_user_id req) (Some originalUrl) (Some url)
                    normalizedPreset finalPrompt (Some Completed)
          in case save_new now (gen_store w1) True g of
               (saved, gdb) \<Rightarrow>
                 let w2 = w1\<lparr>gen_store := gdb,
                             log := log w1 @ [GenerationWriteAttempted (\<not> isl saved)]\<rparr>;
                     gid = (case saved of Inr g' \<Rightarrow> ObjectId (g_id g') | Inl _ \<Rightarrow> TempId);
                     gurl = (case saved of Inr g' \<Rightarrow> generatedImageUrl g' | Inl _ \<Rightarrow> Some url)
                 in (Generated \<lparr>echoedInput = echoed, generation_id = gid, imageUrl = gurl,
                                res_originalImageUrl = originalUrl, res_prompt = finalPrompt,
                                res_generationsUsed = generationsUsed q,
                                res_generationsLimit = generationsLimit q,
                                res_generationsRemaining =
                                  max 0 (generationsLimit q - generationsUsed q)\<rparr>, w2))"

text \<open>
  The first part of the handler: the three checks of the input, the lookup of the user,
  today's quota and the check of its count. It ends the request with a response, or
  hands on the stored file's name and the quota document.
\<close>

definition admit :: "world \<Rightarrow> day \<Rightarrow> request \<Rightarrow> (response + string \<times> quota) \<times> world" where
  "admit w today req =
     (if \<not> truthy (r_prompt req) \<or> trim (js_string (r_prompt req)) = []
      then (Inl (Rejected 400 ''Prompt is required and cannot be empty''), w)
      else (case r_file req of
        None \<Rightarrow> (Inl (Rejected 400 ''Image file is required for image-to-image generation''), w)
      | Some filename \<Rightarrow>
        (if length (js_string (r_prompt req)) > 1000
         then (Inl (Rejected 400 ''Prompt must be less than 1000 characters''), w)
         else (case find (\<lambda>u. u_id u = r_user_id req) (users w) of
           None \<Rightarrow> (Inl (Rejected 404 ''User not found''), w)
         | Some u \<Rightarrow>
           (case route_quota w today u of
              (Inl err, w1) \<Rightarrow> (Inl (outer_catch err), w1)
            | (Inr quota, w1) \<Rightarrow>
               (if generationsUsed quota \<ge> generationsLimit quota
                then (Inl (Rejected 429
                  ''Daily generation limit exceeded. Please upgrade to Pro for unlimited generations.''),
                  w1)
                else (Inr (filename, quota), w1)))))))"

text \<open>The handler: the part above, the prompt, the processing step, the commit.\<close>

definition image_to_image ::
  "bool \<Rightarrow> preset list option \<Rightarrow> service_result \<Rightarrow> int \<Rightarrow> day \<Rightarrow> world \<Rightarrow> request
     \<Rightarrow> response \<times> world" where
  "image_to_image gemini catalog svc now today w req =
     (case admit w today req of
        (Inl r, w1) \<Rightarrow> (r, w1)
      | (Inr (filename, quota), w1) \<Rightarrow>
          (let uploadedImageUrl = upload_url req filename;
               resolved = resolve_prompt catalog (js_string (r_prompt req)) (r_preset req)
                            uploadedImageUrl;
               originalUrl = upload_url req filename
           in (case process_image gemini svc originalUrl w1 of
                 (Inl r, w2) \<Rightarrow> (r, w2)
               | (Inr url, w2) \<Rightarrow>
                   commit now w2 req quota url originalUrl (fst resolved) (snd resolved))))"

text \<open>The input checks of the handler, as one predicate.\<close>

definition valid_request :: "request \<Rightarrow> bool" where
  "valid_request req =
     (truthy (r_prompt req) \<and> trim (js_string (r_prompt req)) \<noteq> [] \<and> r_file req \<noteq> None
      \<and> length (js_string (r_prompt req)) \<le> 1000)"


section \<open>The retry route (routes/generate.js) and the quota route (routes/user.js)\<close>

text \<open>
  Both routes run under \<^verbatim>\<open>asyncHandler\<close>: an error a store raises is passed on to the
  error middleware. \<open>u\<close> is \<^verbatim>\<open>req.user\<close>, the user document the \<^verbatim>\<open>auth\<close>
  middleware loaded; the routes read its id and pass no tier to the quota ledger.
\<close>

datatype retry_response =
  RetryRejected nat string
  | RetryQuotaExceeded int int day
  | RetryInitiated nat status
  | RetryError error

definition retry ::
  "env \<Rightarrow> int \<Rightarrow> day \<Rightarrow> world \<Rightarrow> user \<Rightarrow> nat \<Rightarrow> retry_response \<times> world" where
  "retry e now today w u gid =
     (case find (\<lambda>g. g_id g = gid \<and> g_userId g = u_id u) (generations (gen_store w)) of
        None \<Rightarrow> (RetryRejected 404 ''Generation not found'', w)
      | Some generation \<Rightarrow>
          (if status generation \<noteq> Failed
           then (RetryRejected 400 ''Can only retry failed generations'', w)
           else (case canUserGenerate e (quota_store w) today (u_id u) None of
              (Inl err, qdb) \<Rightarrow> (RetryError err, w\<lparr>quota_store := qdb\<rparr>)
            | (Inr canGenerate, qdb) \<Rightarrow>
                (if \<not> canGenerate then
                   (case getTodayQuota e qdb today (u_id u) None of
                      (Inl err, qdb') \<Rightarrow> (RetryError err, w\<lparr>quota_store := qdb'\<rparr>)
                    | (Inr quota, qdb') \<Rightarrow>
                        (RetryQuotaExceeded (generationsUsed quota) (generationsLimit quota)
                           (resetAt quota), w\<lparr>quota_store := qdb'\<rparr>))
                 else
                   (case save_loaded now (gen_store w) (status generation \<noteq> Processing)
                           (generation\<lparr>status := Processing, errorMessage := None,
                                       generatedImageUrl := None\<rparr>) of
                      (g', gdb) \<Rightarrow>
                        (RetryInitiated (g_id g') Processing,
                         w\<lparr>quota_store := qdb, gen_store := gdb\<rparr>))))))"

text \<open>
  \<^verbatim>\<open>GET /api/user/quota\<close>. The answer carries the counts, the remaining generations
  (the virtual \<^verbatim>\<open>generationsRemaining\<close>), the reset day and the user's tier.
\<close>

definition generationsRemaining :: "quota \<Rightarrow> int" where
  "generationsRemaining q = max 0 (generationsLimit q - generationsUsed q)"

record quota_body =
  qb_generationsUsed :: int
  qb_generationsLimit :: int
  qb_generationsRemaining :: int
  qb_resetAt :: day
  qb_date :: day
  qb_tier :: string

definition get_quota ::
  "env \<Rightarrow> day \<Rightarrow> world \<Rightarrow> user \<Rightarrow> (error + quota_body) \<times> world" where
  "get_quota e today w u =
     (case getTodayQuota e (quota_store w) today (u_id u) None of
        (Inl err, qdb) \<Rightarrow> (Inl err, w\<lparr>quota_store := qdb\<rparr>)
      | (Inr quota, qdb) \<Rightarrow>
          (Inr \<lparr>qb_generationsUsed = generationsUsed quota,
                qb_generationsLimit = generationsLimit quota,
                qb_generationsRemaining = generationsRemaining quota,
                qb_resetAt = resetAt quota, qb_date = q_date quota, qb_tier = tier u\<rparr>,
           w\<lparr>quota_store := qdb\<rparr>))"


section \<open>Concurrent calls of incrementUsage\<close>

text \<open>
  A call of \<^verbatim>\<open>incrementUsage\<close> gives up control at its \<^verbatim>\<open>await\<close>s; between them it
  runs alone. It is modelled in two steps: the lookup \<^verbatim>\<open>await this.getTodayQuota(...)\<close>
  and then the check, the increment of the loaded document and \<^verbatim>\<open>await quota.save()\<close>,
  which writes the loaded document's new count. The lookup is taken as one step; where
  today's record exists with the limit of the tier it is the single read
  \<^verbatim>\<open>findOne\<close>. A schedule names, step by step, the call that runs next.
\<close>

datatype call_state =
  Waiting
  | Loaded quota
  | Done "error + quota"

definition step_call ::
  "env \<Rightarrow> day \<Rightarrow> user_id \<Rightarrow> string option \<Rightarrow> quota_db \<Rightarrow> call_state \<Rightarrow> call_state \<times> quota_db" where
  "step_call e today uid userTier db c =
     (case c of
        Waiting \<Rightarrow>
          (case getTodayQuota e db today uid userTier of
             (Inl err, db') \<Rightarrow> (Done (Inl err), db')
           | (Inr quota, db') \<Rightarrow> (Loaded quota, db'))
      | Loaded quota \<Rightarrow>
          (if generationsUsed quota \<ge> generationsLimit quota then (Done (Inl LimitExceeded), db)
           else (case save_used db (quota\<lparr>generationsUsed := generationsUsed quota + 1\<rparr>) of
                   (r, db') \<Rightarrow> (Done r, db')))
      | Done r \<Rightarrow> (Done r, db))"

fun run_schedule ::
  "env \<Rightarrow> day \<Rightarrow> user_id \<Rightarrow> string option \<Rightarrow> nat list \<Rightarrow> quota_db \<times> call_state list
     \<Rightarrow> quota_db \<times> call_state list" where
  "run_schedule e today uid userTier [] cfg = cfg"
| "run_schedule e today uid userTier (i # sched) (db, calls) =
     (if i < length calls then
        (case step_call e today uid userTier db (calls ! i) of
           (c', db') \<Rightarrow> run_schedule e today uid userTier sched (db', calls[i := c']))
      else run_schedule e today uid userTier sched (db, calls))"

definition succeeded :: "call_state \<Rightarrow> bool" where
  "succeeded c = (case c of Done (Inr q) \<Rightarrow> True | _ \<Rightarrow> False)"


section \<open>Well-formed stores and observations\<close>

text \<open>
  A quota store as the ledger leaves it: every id was handed out by the collection and
  no record is dated after the current day (records are only created for the day of
  the call).
\<close>

definition quota_db_ok :: "quota_db \<Rightarrow> day \<Rightarrow> bool" where
  "quota_db_ok db today = list_all (\<lambda>q. q_id q < next_id db \<and> q_date q \<le> today) (quotas db)"

text \<open>
  An environment that configures no negative limit. (A configured 0 or an unset variable
  gives the default.)
\<close>

definition env_ok :: "env \<Rightarrow> bool" where
  "env_ok e =
     ((case PAID_TIER_DAILY_LIMIT e of None \<Rightarrow> True | Some n \<Rightarrow> 0 \<le> n)
      \<and> (case FREE_TIER_DAILY_LIMIT e of None \<Rightarrow> True | Some n \<Rightarrow> 0 \<le> n))"

text \<open>The count charged to a user on a day; no record yet counts as 0.\<close>

definition used_today :: "world \<Rightarrow> day \<Rightarrow> user_id \<Rightarrow> int" where
  "used_today w today uid =
     (case findOne (quota_store w) uid today of None \<Rightarrow> 0 | Some q \<Rightarrow> generationsUsed q)"

text \<open>The Generation records a request added to the store.\<close>

definition added_generations :: "world \<Rightarrow> world \<Rightarrow> generation list" where
  "added_generations w w' =
     drop (length (generations (gen_store w))) (generations (gen_store w'))"

text \<open>The effects a request added to the log.\<close>

definition added_log :: "world \<Rightarrow> world \<Rightarrow> event list" where
  "added_log w w' = drop (length (log w)) (log w')"

definition is_quota_write :: "event \<Rightarrow> bool" where
  "is_quota_write ev = (case ev of QuotaWritten i n \<Rightarrow> True | _ \<Rightarrow> False)"

definition is_generation_write :: "event \<Rightarrow> bool" where
  "is_generation_write ev = (case ev of GenerationWriteAttempted ok \<Rightarrow> True | _ \<Rightarrow> False)"

text \<open>
  Whether, in a list of effects, an attempt to write the Generation record comes before
  the first write of the quota count.
\<close>

definition record_written_before_charge :: "event list \<Rightarrow> bool" where
  "record_written_before_charge evs =
     list_ex is_generation_write (takeWhile (\<lambda>ev. \<not> is_quota_write ev) evs)"

text \<open>Sample data: the unset environment, empty stores, one free and one paid user.\<close>

definition default_env :: env where
  "default_env = \<lparr>PAID_TIER_DAILY_LIMIT = None, FREE_TIER_DAILY_LIMIT = None\<rparr>"

definition empty_quota_db :: quota_db where
  "empty_quota_db = \<lparr>quotas = [], next_id = 0\<rparr>"

definition empty_gen_db :: gen_db where
  "empty_gen_db = \<lparr>generations = [], gen_next_id = 0\<rparr>"

definition sample_world :: world where
  "sample_world =
     \<lparr>users = [\<lparr>u_id = 1, tier = ''free''\<rparr>, \<lparr>u_id = 2, tier = ''paid''\<rparr>],
      quota_store = empty_quota_db, gen_store = empty_gen_db, log = []\<rparr>"

definition sample_request :: request where
  "sample_request =
     \<lparr>r_user_id = 1, r_prompt = Some ''sunset'', r_preset = None, r_file = Some ''in.jpg'',
      r_protocol = ''http'', r_host = ''h''\<rparr>"

definition sample_preset :: preset where
  "sample_preset =
     \<lparr>p_id = ''style_1'', p_name = Some ''style'', p_category = Some ''style'',
      main_prompt = Some ''make it look like {prompt} in the style, ref: {image}''\<rparr>"

text \<open>A paid user's record of day 0, created with the paid limit, 7 generations used.\<close>

definition paid_quota :: quota where
  "paid_quota =
     \<lparr>q_id = 0, q_userId = 2, q_date = 0, generationsUsed = 7, generationsLimit = 50,
      resetAt = 1\<rparr>"

definition paid_world :: world where
  "paid_world = sample_world\<lparr>quota_store := \<lparr>quotas = [paid_quota], next_id = 1\<rparr>\<rparr>"

text \<open>The free user of the samples with today's five generations used up.\<close>

definition full_world :: world where
  "full_world =
     sample_world\<lparr>quota_store :=
       \<lparr>quotas = [\<lparr>q_id = 0, q_userId = 1, q_date = 0, generationsUsed = 5,
                    generationsLimit = 5, resetAt = 1\<rparr>], next_id = 1\<rparr>\<rparr>"

text \<open>
  Sample runs of the handler for the free user without a record yet: the provider call
  fails with a safety rejection (first and second copy of the client); the provider
  returns a new image.
\<close>

definition safety_run :: "response \<times> world" where
  "safety_run =
     image_to_image True None
       (generateImageFromImage (Threw (Some ''Response was blocked due to safety'') None)) 100 0
       sample_world sample_request"

definition safety_run_fallback :: "response \<times> world" where
  "safety_run_fallback =
     image_to_image True None
       (generateImageFromImage_fallback (Threw (Some ''Response was blocked due to safety'') None)
          (Some ''placeholder-1.jpg'')) 100 0
       sample_world sample_request"

definition fresh_run :: "response \<times> world" where
  "fresh_run =
     image_to_image True None (Returned (Some ''/uploads/gemini-i2i-1.jpg'') False) 100 0
       sample_world sample_request"

text \<open>
  A generation of the free user that was created in \<open>processing\<close> at time 0 and marked
  failed at time 5, and the retry of it at time 9.
\<close>

definition failed_world :: world where
  "failed_world =
     (case save_new 0 empty_gen_db False
             (new_generation 0 1 (Some ''http://h/uploads/in.jpg'') None ''custom'' ''sunset''
                None) of
        (Inr g, gdb) \<Rightarrow> sample_world\<lparr>gen_store := snd (markFailed 5 gdb g ''boom'')\<rparr>
      | (Inl err, gdb) \<Rightarrow> sample_world)"

definition retry_run :: "retry_response \<times> world" where
  "retry_run = retry default_env 9 0 failed_world \<lparr>u_id = 1, tier = ''free''\<rparr> 0"

text \<open>
  Six calls of \<open>incrementUsage\<close> for user 1 on day 0, with the environment unset
  (limit 5), on a store that holds the user's record of the day with nothing used:
  every call does its lookup before any call saves.
\<close>

definition race_store :: quota_db where
  "race_store =
     \<lparr>quotas = [\<lparr>q_id = 0, q_userId = 1, q_date = 0, generationsUsed = 0,
                  generationsLimit = 5, resetAt = 1\<rparr>], next_id = 1\<rparr>"

definition race_run :: "quota_db \<times> call_state list" where
  "race_run =
     run_schedule default_env 0 1 None [0, 1, 2, 3, 4, 5, 0, 1, 2, 3, 4, 5]
       (race_store, [Waiting, Waiting, Waiting, Waiting, Waiting, Waiting])"


text \<open>
  The final prompt and the preset name the handler resolves for a request, and whether
  the Generation record made of them passes the schema validators (prompt present and
  at most 2000 characters, preset name in the enumeration): only then is it stored.
\<close>

definition resolved :: "preset list option \<Rightarrow> request \<Rightarrow> string \<Rightarrow> string \<times> string" where
  "resolved catalog req filename =
     resolve_prompt catalog (js_string (r_prompt req)) (r_preset req) (upload_url req filename)"

definition storable :: "string \<Rightarrow> string \<Rightarrow> bool" where
  "storable finalPrompt normalizedPreset =
     (finalPrompt \<noteq> [] \<and> length finalPrompt \<le> 2000 \<and> normalizedPreset \<in> set presetUsed_enum)"

definition record_stored :: "preset list option \<Rightarrow> request \<Rightarrow> string \<Rightarrow> bool" where
  "record_stored catalog req filename =
     storable (fst (resolved catalog req filename)) (snd (resolved catalog req filename))"

text \<open>
  The two groups of errors the \<^verbatim>\<open>catch\<close> blocks of the client tell apart by the message
  and the code: the rejections (key, quota, safety), tested first, and the connection
  errors.
\<close>

definition is_rejection :: "string option \<Rightarrow> bool" where
  "is_rejection msg =
     (msg_includes msg ''API key'' \<or> msg_includes msg ''quota'' \<or> msg_includes msg ''safety'')"

definition is_connection_error :: "string option \<Rightarrow> string option \<Rightarrow> bool" where
  "is_connection_error msg code =
     (msg_includes msg ''SSL'' \<or> msg_includes msg ''TLS''
      \<or> msg_includes msg ''ECONNRESET'' \<or> msg_includes msg ''ENOTFOUND''
      \<or> msg_includes msg ''certificate''
      \<or> code = Some ''ECONNRESET'' \<or> code = Some ''ENOTFOUND'')"

text \<open>
  Sample runs of the handler for the free user without a record yet. No client is
  configured (no call is made and the value given for its result is not read); the
  call of the first copy of the client fails with a network error.
\<close>

definition no_client_run :: "response \<times> world" where
  "no_client_run =
     image_to_image False None (ServiceThrew []) 100 0 sample_world sample_request"

definition threw_run :: "response \<times> world" where
  "threw_run =
     image_to_image True None
       (generateImageFromImage (Threw (Some ''fetch failed'') None)) 100 0
       sample_world sample_request"

text \<open>
  The same request naming the built-in preset \<open>realistic-portrait\<close>, with no client
  configured.
\<close>

definition preset_request :: request where
  "preset_request = sample_request\<lparr>r_preset := Some ''realistic-portrait''\<rparr>"

definition preset_run :: "response \<times> world" where
  "preset_run =
     image_to_image False (Some []) (ServiceThrew []) 100 0 sample_world preset_request"

text \<open>
  The call fails with a time-out (second copy of the client, which could write a
  placeholder); with a connection reset (first copy); with a connection reset (second
  copy, which writes the placeholder).
\<close>

definition timeout_run :: "response \<times> world" where
  "timeout_run =
     image_to_image True None
       (generateImageFromImage_fallback (Threw (Some ''Request timed out'') (Some ''ETIMEDOUT''))
          (Some ''placeholder-1.jpg'')) 100 0
       sample_world sample_request"

definition reset_run :: "response \<times> world" where
  "reset_run =
     image_to_image True None
       (generateImageFromImage (Threw (Some ''read ECONNRESET'') (Some ''ECONNRESET''))) 100 0
       sample_world sample_request"

definition placeholder_run :: "response \<times> world" where
  "placeholder_run =
     image_to_image True None
       (generateImageFromImage_fallback (Threw (Some ''read ECONNRESET'') (Some ''ECONNRESET''))
          (Some ''placeholder-1.jpg'')) 100 0
       sample_world sample_request"

text \<open>
  The request naming the built-in preset, with a call that fails with a time-out
  (second copy of the client).
\<close>

definition preset_timeout_run :: "response \<times> world" where
  "preset_timeout_run =
     image_to_image True (Some [])
       (generateImageFromImage_fallback (Threw (Some ''Request timed out'') (Some ''ETIMEDOUT''))
          (Some ''placeholder-1.jpg'')) 100 0
       sample_world preset_request"


section \<open>Facts about the quota ledger\<close>

lemma find_map_key:
  assumes "\<And>x. P (f x) = P x"
  shows "find P (map f xs) = map_option f (find P xs)"
  using assms by (induction xs) auto

lemma findOne_set_limit:
  "findOne (set_limit db i lim) uid d =
     map_option (\<lambda>r. if q_id r = i then r\<lparr>generationsLimit := lim\<rparr> else r) (findOne db uid d)"
  unfolding findOne_def set_limit_def
  by (simp add: find_map_key)

lemma findOne_set_used:
  "findOne (set_used db i n) uid d =
     map_option (\<lambda>r. if q_id r = i then r\<lparr>generationsUsed := n\<rparr> else r) (findOne db uid d)"
  unfolding findOne_def set_used_def
  by (simp add: find_map_key)

lemma findOne_key:
  "findOne db uid d = Some q \<Longrightarrow> q_userId q = uid \<and> q_date q = d \<and> q \<in> set (quotas db)"
  unfolding findOne_def by (auto simp: find_Some_iff)

lemma tierLimit_positive: "env_ok e \<Longrightarrow> 1 \<le> tierLimit e t"
  unfolding env_ok_def tierLimit_def or_default_def
  by (auto split: option.splits)

lemma getTodayQuota_found:
  assumes "findOne db uid today = Some q" and "1 \<le> tierLimit e (tier_arg t)"
  shows "getTodayQuota e db today uid t =
           (Inr (q\<lparr>generationsLimit := tierLimit e (tier_arg t)\<rparr>),
            if generationsLimit q \<noteq> tierLimit e (tier_arg t)
            then set_limit db (q_id q) (tierLimit e (tier_arg t)) else db)"
  using assms by (auto simp: getTodayQuota_def save_limit_def Let_def)

lemma getTodayQuota_absent:
  assumes "findOne db uid today = None" and "1 \<le> tierLimit e (tier_arg t)"
  shows "getTodayQuota e db today uid t =
           (Inr \<lparr>q_id = next_id db, q_userId = uid, q_date = today, generationsUsed = 0,
                  generationsLimit = tierLimit e (tier_arg t), resetAt = today + 1\<rparr>,
            db\<lparr>quotas := quotas db @ [\<lparr>q_id = next_id db, q_userId = uid, q_date = today,
                  generationsUsed = 0, generationsLimit = tierLimit e (tier_arg t),
                  resetAt = today + 1\<rparr>], next_id := Suc (next_id db)\<rparr>)"
  using assms by (auto simp: getTodayQuota_def create_quota_def Let_def)

lemma find_append_case:
  "find P (xs @ ys) = (case find P xs of Some x \<Rightarrow> Some x | None \<Rightarrow> find P ys)"
  by (induction xs) auto

lemma quota_db_ok_empty: "quota_db_ok \<lparr>quotas = [], next_id = n\<rparr> today"
  by (simp add: quota_db_ok_def)

lemma quota_db_ok_later: "quota_db_ok db d \<Longrightarrow> d \<le> d' \<Longrightarrow> quota_db_ok db d'"
  unfolding quota_db_ok_def list_all_iff by fastforce

lemma quota_db_ok_set_limit: "quota_db_ok db d \<Longrightarrow> quota_db_ok (set_limit db i lim) d"
  unfolding quota_db_ok_def list_all_iff set_limit_def by auto

lemma quota_db_ok_set_used: "quota_db_ok db d \<Longrightarrow> quota_db_ok (set_used db i n) d"
  unfolding quota_db_ok_def list_all_iff set_used_def by auto

lemma quota_db_ok_getTodayQuota:
  "quota_db_ok db today \<Longrightarrow> quota_db_ok (snd (getTodayQuota e db today uid t)) today"
  unfolding getTodayQuota_def create_quota_def save_limit_def Let_def
  by (auto simp: quota_db_ok_set_limit split: option.splits)
     (auto simp: quota_db_ok_def list_all_iff)

lemma quota_db_ok_incrementUsage:
  "quota_db_ok db today \<Longrightarrow> quota_db_ok (snd (incrementUsage e db today uid t)) today"
  using quota_db_ok_getTodayQuota [of db today e uid t]
  unfolding incrementUsage_def save_used_def
  by (auto simp: quota_db_ok_set_used split: prod.splits sum.splits)

lemma findOne_later_absent:
  "quota_db_ok db today \<Longrightarrow> today < d \<Longrightarrow> findOne db uid d = None"
  unfolding quota_db_ok_def list_all_iff findOne_def
  by (auto simp: find_None_iff)

lemma findOne_id_below:
  "quota_db_ok db today \<Longrightarrow> findOne db uid d = Some q \<Longrightarrow> q_id q < next_id db"
  unfolding quota_db_ok_def list_all_iff using findOne_key by blast

lemma next_id_set_limit: "next_id (set_limit db i lim) = next_id db"
  by (simp add: set_limit_def)

lemma getTodayQuota_then_found:
  assumes "1 \<le> tierLimit e (tier_arg t)"
  shows "\<exists>q db'. getTodayQuota e db today uid t = (Inr q, db') \<and> findOne db' uid today = Some q
           \<and> generationsLimit q = tierLimit e (tier_arg t)
           \<and> (quota_db_ok db today \<longrightarrow> q_id q < next_id db')"
proof (cases "findOne db uid today")
  case None
  then show ?thesis
    using assms
    by (simp add: getTodayQuota_absent findOne_def find_append_case)
next
  case (Some q)
  then show ?thesis
    using assms findOne_id_below [of db today uid today q]
    by (simp add: getTodayQuota_found findOne_set_limit next_id_set_limit)
qed


section \<open>Facts about the image-to-image route\<close>

lemma route_quota_cases:
  "route_quota w today u =
     (case findOne (quota_store w) (u_id u) today of
        Some q \<Rightarrow> (Inr q, w)
      | None \<Rightarrow>
          (Inr \<lparr>q_id = next_id (quota_store w), q_userId = u_id u, q_date = today,
                generationsUsed = 0, generationsLimit = (if tier u = ''paid'' then 50 else 5),
                resetAt = today + 1\<rparr>,
           w\<lparr>quota_store := (quota_store w)\<lparr>quotas := quotas (quota_store w) @
                [\<lparr>q_id = next_id (quota_store w), q_userId = u_id u, q_date = today,
                  generationsUsed = 0, generationsLimit = (if tier u = ''paid'' then 50 else 5),
                  resetAt = today + 1\<rparr>],
                next_id := Suc (next_id (quota_store w))\<rparr>\<rparr>))"
  unfolding route_quota_def create_quota_def Let_def
  by (simp split: option.splits)

lemma route_quota_ok:
  "\<exists>q w1. route_quota w today u = (Inr q, w1) \<and> findOne (quota_store w1) (u_id u) today = Some q
      \<and> generationsUsed q = used_today w today (u_id u)
      \<and> users w1 = users w \<and> gen_store w1 = gen_store w \<and> log w1 = log w"
proof (cases "findOne (quota_store w) (u_id u) today")
  case None
  then show ?thesis
    by (simp add: route_quota_cases used_today_def findOne_def find_append_case)
next
  case (Some q)
  then show ?thesis
    by (simp add: route_quota_cases used_today_def)
qed

lemma admit_accepts:
  assumes "admit w today req = (Inr (filename, quota), w1)"
  shows "valid_request req \<and> r_file req = Some filename
       \<and> findOne (quota_store w1) (r_user_id req) today = Some quota
       \<and> generationsUsed quota = used_today w today (r_user_id req)
       \<and> generationsUsed quota < generationsLimit quota
       \<and> users w1 = users w \<and> gen_store w1 = gen_store w \<and> log w1 = log w"
proof -
  from assms have v: "valid_request req" and f: "r_file req = Some filename"
    unfolding admit_def valid_request_def
    by (auto split: if_splits option.splits prod.splits sum.splits)
  from assms v f obtain u where u: "find (\<lambda>u. u_id u = r_user_id req) (users w) = Some u"
    unfolding admit_def valid_request_def
    by (auto split: if_splits option.splits prod.splits sum.splits)
  then have uid: "u_id u = r_user_id req"
    by (auto simp: find_Some_iff)
  obtain q w' where rq: "route_quota w today u = (Inr q, w')"
    and fq: "findOne (quota_store w') (u_id u) today = Some q"
    and uq: "generationsUsed q = used_today w today (u_id u)"
    and same: "users w' = users w" "gen_store w' = gen_store w" "log w' = log w"
    using route_quota_ok [of w today u] by blast
  from assms v f u rq have "quota = q \<and> w1 = w' \<and> generationsUsed q < generationsLimit q"
    unfolding admit_def valid_request_def
    by (auto split: if_splits)
  with v f fq uq same uid show ?thesis by simp
qed


lemma save_new_result:
  "save_new now db True (new_generation now uid orig gen pn fp (Some Completed)) =
     (case validate_generation (new_generation now uid orig gen pn fp (Some Completed)) of
        Some err \<Rightarrow> (Inl err, db)
      | None \<Rightarrow>
          (Inr ((new_generation now uid orig gen pn fp (Some Completed))
                  \<lparr>processingEndTime := Some now, processingTime := Some 0,
                   g_id := gen_next_id db\<rparr>),
           db\<lparr>generations := generations db @
                 [(new_generation now uid orig gen pn fp (Some Completed))
                    \<lparr>processingEndTime := Some now, processingTime := Some 0,
                     g_id := gen_next_id db\<rparr>],
               gen_next_id := Suc (gen_next_id db)\<rparr>))"
  unfolding save_new_def pre_save_def Let_def
  by (simp add: new_generation_def split: option.splits)

lemma new_generation_fields:
  "status (new_generation now uid orig gen pn fp (Some st)) = st"
  "generatedImageUrl (new_generation now uid orig gen pn fp st') = gen"
  by (simp_all add: new_generation_def)

lemma process_image_log:
  "process_image gemini svc orig w = (r, w') \<Longrightarrow>
     users w' = users w \<and> quota_store w' = quota_store w \<and> gen_store w' = gen_store w
     \<and> log w' = log w @ (if gemini then [ProviderCalled] else [])"
  unfolding process_image_def Let_def
  by (auto split: if_splits service_result.splits)


lemma commit_refused:
  assumes "generationsUsed quota + 1 < 0"
  shows "commit now w req quota url orig fp pn =
           (Rejected 400 ''Invalid data provided. Please check your input and try again.'', w)"
  using assms unfolding commit_def save_used_def Let_def
  by (simp add: outer_catch_def)

lemma commit_generated:
  assumes "commit now w req quota url orig fp pn = (Generated b, w')"
  shows "0 \<le> generationsUsed quota + 1"
proof (rule ccontr)
  assume "\<not> 0 \<le> generationsUsed quota + 1"
  then have "generationsUsed quota + 1 < 0" by simp
  from commit_refused [OF this] assms show False by simp
qed

lemma commit_effects:
  assumes nonneg: "0 \<le> generationsUsed quota + 1"
  shows "\<exists>b w'. commit now w req quota url orig fp pn = (Generated b, w')
       \<and> echoedInput b = (url = orig)
       \<and> res_generationsUsed b = generationsUsed quota + 1
       \<and> quota_store w' = set_used (quota_store w) (q_id quota) (generationsUsed quota + 1)
       \<and> users w' = users w
       \<and> (\<exists>ok. log w' = log w @ [QuotaWritten (q_id quota) (generationsUsed quota + 1),
                                   GenerationWriteAttempted ok]
             \<and> (ok \<longrightarrow> (\<exists>g. added_generations w w' = [g] \<and> status g = Completed
                             \<and> processingEndTime g = Some now \<and> generatedImageUrl g = Some url
                             \<and> generation_id b = ObjectId (g_id g)))
             \<and> (\<not> ok \<longrightarrow> gen_store w' = gen_store w \<and> generation_id b = TempId))"
proof -
  let ?g = "new_generation now (r_user_id req) (Some orig) (Some url) pn fp (Some Completed)"
  have su: "save_used (quota_store w) (quota\<lparr>generationsUsed := generationsUsed quota + 1\<rparr>) =
         (Inr (quota\<lparr>generationsUsed := generationsUsed quota + 1\<rparr>),
          set_used (quota_store w) (q_id quota) (generationsUsed quota + 1))"
    using nonneg by (simp add: save_used_def)
  show ?thesis
  proof (cases "validate_generation ?g")
    case None
    have sn: "save_new now (gen_store w) True ?g =
        (Inr (?g\<lparr>processingEndTime := Some now, processingTime := Some 0,
                 g_id := gen_next_id (gen_store w)\<rparr>),
         (gen_store w)\<lparr>generations := generations (gen_store w) @
             [?g\<lparr>processingEndTime := Some now, processingTime := Some 0,
                 g_id := gen_next_id (gen_store w)\<rparr>],
           gen_next_id := Suc (gen_next_id (gen_store w))\<rparr>)"
      using None by (simp add: save_new_result)
    show ?thesis
      unfolding commit_def Let_def
      by (auto simp: su sn added_generations_def new_generation_fields)
  next
    case (Some err)
    have sn: "save_new now (gen_store w) True ?g = (Inl err, gen_store w)"
      using Some by (simp add: save_new_result)
    show ?thesis
      unfolding commit_def Let_def
      by (auto simp: su sn added_generations_def)
  qed
qed

lemma image_to_image_unfold:
  assumes "admit w today req = (Inr (filename, quota), w1)"
    and "process_image gemini svc (upload_url req filename) w1 = (Inr url, w2)"
  shows "image_to_image gemini catalog svc now today w req =
           commit now w2 req quota url (upload_url req filename)
             (fst (resolve_prompt catalog (js_string (r_prompt req)) (r_preset req)
                     (upload_url req filename)))
             (snd (resolve_prompt catalog (js_string (r_prompt req)) (r_preset req)
                     (upload_url req filename)))"
  using assms unfolding image_to_image_def Let_def by simp

lemma used_today_set_used:
  assumes "findOne (quota_store w) uid today = Some q"
    and "quota_store w' = set_used (quota_store w) (q_id q) n"
  shows "used_today w' today uid = n"
  using assms by (simp add: used_today_def findOne_set_used)

lemma image_to_image_generated:
  assumes adm: "admit w today req = (Inr (filename, quota), w1)"
    and nonneg: "0 \<le> used_today w today (r_user_id req) + 1"
    and pi: "process_image gemini svc (upload_url req filename) w1 = (Inr url, w2)"
  shows "\<exists>b w' ok. image_to_image gemini catalog svc now today w req = (Generated b, w')
       \<and> echoedInput b = (url = upload_url req filename)
       \<and> res_generationsUsed b = used_today w today (r_user_id req) + 1
       \<and> used_today w' today (r_user_id req) = used_today w today (r_user_id req) + 1
       \<and> added_log w w' = (if gemini then [ProviderCalled] else [])
            @ [QuotaWritten (q_id quota) (used_today w today (r_user_id req) + 1),
               GenerationWriteAttempted ok]
       \<and> (ok \<longrightarrow> (\<exists>g. added_generations w w' = [g] \<and> status g = Completed
                       \<and> processingEndTime g = Some now \<and> generatedImageUrl g = Some url))
       \<and> (\<not> ok \<longrightarrow> added_generations w w' = [] \<and> generation_id b = TempId)"
proof -
  note a = admit_accepts [OF adm]
  note p = process_image_log [OF pi]
  have nn: "0 \<le> generationsUsed quota + 1" using a nonneg by simp
  from commit_effects [OF nn, of now w2 req url "upload_url req filename"
      "fst (resolve_prompt catalog (js_string (r_prompt req)) (r_preset req) (upload_url req filename))"
      "snd (resolve_prompt catalog (js_string (r_prompt req)) (r_preset req) (upload_url req filename))"]
  obtain b w' ok where
    c: "image_to_image gemini catalog svc now today w req = (Generated b, w')"
    and e: "echoedInput b = (url = upload_url req filename)"
    and r: "res_generationsUsed b = generationsUsed quota + 1"
    and q: "quota_store w' = set_used (quota_store w2) (q_id quota) (generationsUsed quota + 1)"
    and l: "log w' = log w2 @ [QuotaWritten (q_id quota) (generationsUsed quota + 1),
                               GenerationWriteAttempted ok]"
    and g1: "ok \<longrightarrow> (\<exists>g. added_generations w2 w' = [g] \<and> status g = Completed
                     \<and> processingEndTime g = Some now \<and> generatedImageUrl g = Some url)"
    and g2: "\<not> ok \<longrightarrow> gen_store w' = gen_store w2 \<and> generation_id b = TempId"
    unfolding image_to_image_unfold [OF adm pi] by blast
  have f2: "findOne (quota_store w2) (r_user_id req) today = Some quota"
    using a p by simp
  have u: "used_today w' today (r_user_id req) = generationsUsed quota + 1"
    using used_today_set_used [OF f2 q] .
  have gs: "gen_store w2 = gen_store w" using a p by simp
  have lg: "added_log w w' = (if gemini then [ProviderCalled] else [])
            @ [QuotaWritten (q_id quota) (generationsUsed quota + 1), GenerationWriteAttempted ok]"
    using a p l by (simp add: added_log_def)
  have ag: "added_generations w w' = added_generations w2 w'"
    using gs by (simp add: added_generations_def)
  have g2': "\<not> ok \<longrightarrow> added_generations w w' = [] \<and> generation_id b = TempId"
    using g2 gs by (simp add: added_generations_def)
  show ?thesis
    using c e r u lg g1 g2' a ag by auto
qed


section \<open>What an answered request stores and returns\<close>

lemma validate_generation_storable:
  "(validate_generation (new_generation now uid orig gen pn fp st) = None) = storable fp pn"
  by (simp add: validate_generation_def new_generation_def storable_def)

lemma commit_record:
  assumes nonneg: "0 \<le> generationsUsed quota + 1"
  shows "\<exists>b w'. commit now w req quota url orig fp pn = (Generated b, w')
       \<and> echoedInput b = (url = orig)
       \<and> imageUrl b = Some url
       \<and> res_generationsUsed b = generationsUsed quota + 1
       \<and> quota_store w' = set_used (quota_store w) (q_id quota) (generationsUsed quota + 1)
       \<and> (storable fp pn \<longrightarrow>
            (\<exists>g. added_generations w w' = [g] \<and> status g = Completed
                \<and> processingEndTime g = Some now \<and> generatedImageUrl g = Some url
                \<and> originalImageUrl g = Some orig \<and> g_prompt g = fp \<and> presetUsed g = pn
                \<and> g_userId g = r_user_id req \<and> generation_id b = ObjectId (g_id g)))
       \<and> (\<not> storable fp pn \<longrightarrow> gen_store w' = gen_store w \<and> generation_id b = TempId)"
proof -
  let ?g = "new_generation now (r_user_id req) (Some orig) (Some url) pn fp (Some Completed)"
  have su: "save_used (quota_store w) (quota\<lparr>generationsUsed := generationsUsed quota + 1\<rparr>) =
         (Inr (quota\<lparr>generationsUsed := generationsUsed quota + 1\<rparr>),
          set_used (quota_store w) (q_id quota) (generationsUsed quota + 1))"
    using nonneg by (simp add: save_used_def)
  show ?thesis
  proof (cases "storable fp pn")
    case True
    then have v: "validate_generation ?g = None"
      by (simp add: validate_generation_storable)
    have sn: "save_new now (gen_store w) True ?g =
        (Inr (?g\<lparr>processingEndTime := Some now, processingTime := Some 0,
                 g_id := gen_next_id (gen_store w)\<rparr>),
         (gen_store w)\<lparr>generations := generations (gen_store w) @
             [?g\<lparr>processingEndTime := Some now, processingTime := Some 0,
                 g_id := gen_next_id (gen_store w)\<rparr>],
           gen_next_id := Suc (gen_next_id (gen_store w))\<rparr>)"
      using v by (simp add: save_new_result)
    have fields: "status ?g = Completed" "generatedImageUrl ?g = Some url"
      "originalImageUrl ?g = Some orig" "g_prompt ?g = fp" "presetUsed ?g = pn"
      "g_userId ?g = r_user_id req"
      by (simp_all add: new_generation_def)
    show ?thesis
      unfolding commit_def Let_def
      using True by (simp add: su sn added_generations_def fields)
  next
    case False
    then obtain err where v: "validate_generation ?g = Some err"
      using validate_generation_storable [of now "r_user_id req" "Some orig" "Some url" pn fp
          "Some Completed"]
      by (cases "validate_generation ?g") auto
    have sn: "save_new now (gen_store w) True ?g = (Inl err, gen_store w)"
      using v by (simp add: save_new_result)
    show ?thesis
      unfolding commit_def Let_def
      using False by (simp add: su sn added_generations_def)
  qed
qed

lemma image_to_image_record:
  assumes adm: "admit w today req = (Inr (filename, quota), w1)"
    and nonneg: "0 \<le> used_today w today (r_user_id req) + 1"
    and pi: "process_image gemini svc (upload_url req filename) w1 = (Inr url, w2)"
  shows "\<exists>b w'. image_to_image gemini catalog svc now today w req = (Generated b, w')
       \<and> echoedInput b = (url = upload_url req filename)
       \<and> imageUrl b = Some url
       \<and> res_generationsUsed b = used_today w today (r_user_id req) + 1
       \<and> used_today w' today (r_user_id req) = used_today w today (r_user_id req) + 1
       \<and> (record_stored catalog req filename \<longrightarrow>
            (\<exists>g. added_generations w w' = [g] \<and> status g = Completed
                \<and> processingEndTime g = Some now \<and> generatedImageUrl g = Some url
                \<and> originalImageUrl g = Some (upload_url req filename)
                \<and> g_userId g = r_user_id req \<and> generation_id b = ObjectId (g_id g)))
       \<and> (\<not> record_stored catalog req filename \<longrightarrow>
            added_generations w w' = [] \<and> generation_id b = TempId)"
proof -
  note a = admit_accepts [OF adm]
  note p = process_image_log [OF pi]
  let ?fp = "fst (resolved catalog req filename)"
  let ?pn = "snd (resolved catalog req filename)"
  have nn: "0 \<le> generationsUsed quota + 1" using a nonneg by simp
  have unf: "image_to_image gemini catalog svc now today w req =
               commit now w2 req quota url (upload_url req filename) ?fp ?pn"
    using image_to_image_unfold [OF adm pi] by (simp add: resolved_def)
  from commit_record [OF nn, of now w2 req url "upload_url req filename" ?fp ?pn]
  obtain b w' where
    c: "image_to_image gemini catalog svc now today w req = (Generated b, w')"
    and e: "echoedInput b = (url = upload_url req filename)"
    and i: "imageUrl b = Some url"
    and r: "res_generationsUsed b = generationsUsed quota + 1"
    and q: "quota_store w' = set_used (quota_store w2) (q_id quota) (generationsUsed quota + 1)"
    and g1: "storable ?fp ?pn \<longrightarrow>
            (\<exists>g. added_generations w2 w' = [g] \<and> status g = Completed
                \<and> processingEndTime g = Some now \<and> generatedImageUrl g = Some url
                \<and> originalImageUrl g = Some (upload_url req filename)
                \<and> g_userId g = r_user_id req \<and> generation_id b = ObjectId (g_id g))"
    and g2: "\<not> storable ?fp ?pn \<longrightarrow> gen_store w' = gen_store w2 \<and> generation_id b = TempId"
    unfolding unf by blast
  have f2: "findOne (quota_store w2) (r_user_id req) today = Some quota"
    using a p by simp
  have u: "used_today w' today (r_user_id req) = generationsUsed quota + 1"
    using used_today_set_used [OF f2 q] .
  have gs: "gen_store w2 = gen_store w" using a p by simp
  have ag: "added_generations w w' = added_generations w2 w'"
    using gs by (simp add: added_generations_def)
  have g2': "\<not> storable ?fp ?pn \<longrightarrow> added_generations w w' = [] \<and> generation_id b = TempId"
    using g2 gs by (simp add: added_generations_def)
  show ?thesis
    using c e i r u g1 g2' a ag unfolding record_stored_def by auto
qed


section \<open>Day rollover of the quota ledger\<close>

text \<open>
  C8. Two calls of \<open>getTodayQuota\<close> for one user on one day return the same record:
  the second returns the record of the first, with the same id and count, its limit set
  to the limit of the tier the second call names (no record is added). A call on the
  next day returns a record with another id, dated that day, with \<open>generationsUsed = 0\<close>.
  The store is one the ledger produced (\<open>quota_db_ok\<close>) and no negative limit is
  configured (the schema demands a limit of at least 1).
\<close>

theorem getTodayQuota_same_day_next_day:
  assumes ok: "quota_db_ok db today"
    and env: "env_ok e"
  shows "\<exists>q1 db1 q2 db2 q3 db3.
           getTodayQuota e db today uid t1 = (Inr q1, db1)
         \<and> getTodayQuota e db1 today uid t2 = (Inr q2, db2)
         \<and> q2 = q1\<lparr>generationsLimit := tierLimit e (tier_arg t2)\<rparr>
         \<and> findOne db2 uid today = Some q2
         \<and> length (quotas db2) = length (quotas db1)
         \<and> getTodayQuota e db2 (today + 1) uid t3 = (Inr q3, db3)
         \<and> q_id q3 \<noteq> q_id q1 \<and> q_date q3 = today + 1 \<and> generationsUsed q3 = 0"
proof -
  note l1 = tierLimit_positive [OF env, of "tier_arg t1"]
  note l2 = tierLimit_positive [OF env, of "tier_arg t2"]
  note l3 = tierLimit_positive [OF env, of "tier_arg t3"]
  obtain q1 db1 where c1: "getTodayQuota e db today uid t1 = (Inr q1, db1)"
    and f1: "findOne db1 uid today = Some q1" and i1: "q_id q1 < next_id db1"
    using getTodayQuota_then_found [OF l1, of db today uid] ok by blast
  have ok1: "quota_db_ok db1 today"
    using quota_db_ok_getTodayQuota [OF ok, of e uid t1] c1 by simp
  define L2 where "L2 = tierLimit e (tier_arg t2)"
  define db2 where "db2 = (if generationsLimit q1 \<noteq> L2 then set_limit db1 (q_id q1) L2 else db1)"
  have c2: "getTodayQuota e db1 today uid t2 = (Inr (q1\<lparr>generationsLimit := L2\<rparr>), db2)"
    using getTodayQuota_found [OF f1 l2] by (simp add: L2_def db2_def)
  have f2: "findOne db2 uid today = Some (q1\<lparr>generationsLimit := L2\<rparr>)"
    using f1 by (simp add: db2_def findOne_set_limit)
  have len: "length (quotas db2) = length (quotas db1)"
    by (simp add: db2_def set_limit_def)
  have n2: "next_id db2 = next_id db1"
    by (simp add: db2_def set_limit_def)
  have ok2: "quota_db_ok db2 today"
    using ok1 by (simp add: db2_def quota_db_ok_set_limit)
  have absent: "findOne db2 uid (today + 1) = None"
    using findOne_later_absent [OF ok2, of "today + 1" uid] by simp
  note c3 = getTodayQuota_absent [OF absent l3]
  show ?thesis
    using c1 c2 f2 len c3 i1 n2 unfolding L2_def by auto
qed


theorem getTodayQuota_same_day_next_day_witness:
  "quota_db_ok empty_quota_db 0
   \<and> env_ok default_env
   \<and> (\<exists>q1 db1 q2 db2 q3 db3.
           getTodayQuota default_env empty_quota_db 0 1 None = (Inr q1, db1)
         \<and> getTodayQuota default_env db1 0 1 (Some ''paid'') = (Inr q2, db2)
         \<and> q2 = q1\<lparr>generationsLimit := tierLimit default_env (tier_arg (Some ''paid''))\<rparr>
         \<and> findOne db2 1 0 = Some q2
         \<and> length (quotas db2) = length (quotas db1)
         \<and> getTodayQuota default_env db2 (0 + 1) 1 None = (Inr q3, db3)
         \<and> q_id q3 \<noteq> q_id q1 \<and> q_date q3 = 0 + 1 \<and> generationsUsed q3 = 0)"
proof -
  have ok: "quota_db_ok empty_quota_db 0"
    by (simp add: quota_db_ok_def empty_quota_db_def)
  have env: "env_ok default_env"
    by (simp add: env_ok_def default_env_def)
  from getTodayQuota_same_day_next_day [OF ok env, of 1 None "Some ''paid''" None] ok env
  show ?thesis by blast
qed


section \<open>Calls of the ledger that name no tier\<close>

lemma getTodayQuota_default_tier:
  "getTodayQuota e db today uid None = getTodayQuota e db today uid (Some ''free'')"
  by (simp add: getTodayQuota_def tier_arg_def)

lemma getTodayQuota_twice:
  assumes "findOne db uid today = Some q" and "1 \<le> tierLimit e (tier_arg t)"
  shows "getTodayQuota e (snd (getTodayQuota e db today uid t)) today uid t =
           getTodayQuota e db today uid t"
proof -
  let ?L = "tierLimit e (tier_arg t)"
  show ?thesis
  proof (cases "generationsLimit q = ?L")
    case True
    then show ?thesis using assms by (simp add: getTodayQuota_found)
  next
    case False
    have f: "findOne (set_limit db (q_id q) ?L) uid today = Some (q\<lparr>generationsLimit := ?L\<rparr>)"
      using assms(1) by (simp add: findOne_set_limit)
    show ?thesis
      using False assms(2) getTodayQuota_found [OF assms] getTodayQuota_found [OF f assms(2)]
      by simp
  qed
qed

text \<open>
  C5. For a user whose tier is \<open>paid\<close> and who has a quota record for today: a call of
  \<open>getTodayQuota\<close> or \<open>canUserGenerate\<close> without a tier is the call with the tier
  \<open>free\<close>; it returns the record with its limit set to the free limit and stores it so,
  the count untouched. The quota route and the quota check of the retry route (reached
  for a failed generation of the user) make such calls, so after them the stored limit
  is the free limit. With the environment unset the paid limit is 50 and the free limit 5.
  (No negative limit is configured.)
\<close>

theorem tierless_calls_apply_free_limit:
  assumes paid: "tier u = ''paid''"
    and rec: "findOne (quota_store w) (u_id u) today = Some q"
    and env: "env_ok e"
  shows "getTodayQuota e (quota_store w) today (u_id u) None =
           getTodayQuota e (quota_store w) today (u_id u) (Some ''free'')
       \<and> canUserGenerate e (quota_store w) today (u_id u) None =
           canUserGenerate e (quota_store w) today (u_id u) (Some ''free'')
       \<and> fst (getTodayQuota e (quota_store w) today (u_id u) None) =
           Inr (q\<lparr>generationsLimit := tierLimit e ''free''\<rparr>)
       \<and> findOne (snd (getTodayQuota e (quota_store w) today (u_id u) None)) (u_id u) today =
           Some (q\<lparr>generationsLimit := tierLimit e ''free''\<rparr>)
       \<and> fst (canUserGenerate e (quota_store w) today (u_id u) None) =
           Inr (generationsUsed q < tierLimit e ''free'')
       \<and> findOne (quota_store (snd (get_quota e today w u))) (u_id u) today =
           Some (q\<lparr>generationsLimit := tierLimit e ''free''\<rparr>)
       \<and> (find (\<lambda>g. g_id g = gid \<and> g_userId g = u_id u) (generations (gen_store w)) = Some g
            \<and> status g = Failed \<longrightarrow>
          findOne (quota_store (snd (retry e now today w u gid))) (u_id u) today =
            Some (q\<lparr>generationsLimit := tierLimit e ''free''\<rparr>))
       \<and> (PAID_TIER_DAILY_LIMIT e = None \<and> FREE_TIER_DAILY_LIMIT e = None \<longrightarrow>
            tierLimit e (tier u) = 50 \<and> tierLimit e ''free'' = 5)"
proof -
  let ?q' = "q\<lparr>generationsLimit := tierLimit e ''free''\<rparr>"
  let ?db = "quota_store w"
  have lim': "1 \<le> tierLimit e (tier_arg None)"
    using tierLimit_positive [OF env] .
  have ta: "tier_arg None = ''free''"
    by (simp add: tier_arg_def)
  obtain db' where g: "getTodayQuota e ?db today (u_id u) None = (Inr ?q', db')"
    and db': "db' = (if generationsLimit q \<noteq> tierLimit e ''free''
                     then set_limit ?db (q_id q) (tierLimit e ''free'') else ?db)"
    using getTodayQuota_found [OF rec lim'] by (simp add: ta)
  have f': "findOne db' (u_id u) today = Some ?q'"
    using rec by (simp add: db' findOne_set_limit)
  have g2: "getTodayQuota e db' today (u_id u) None = (Inr ?q', db')"
    using getTodayQuota_twice [OF rec lim'] g by simp
  have c: "canUserGenerate e ?db today (u_id u) None = (Inr (generationsUsed q < tierLimit e ''free''), db')"
    by (simp add: canUserGenerate_def g)
  have gq: "quota_store (snd (get_quota e today w u)) = db'"
    by (simp add: get_quota_def g)
  have rt: "quota_store (snd (retry e now today w u gid)) = db'"
    if "find (\<lambda>g. g_id g = gid \<and> g_userId g = u_id u) (generations (gen_store w)) = Some g"
      and "status g = Failed"
    using that unfolding retry_def
    by (simp add: c g2 split: prod.splits)
  have dflt: "tierLimit e (tier u) = 50 \<and> tierLimit e ''free'' = 5"
    if "PAID_TIER_DAILY_LIMIT e = None \<and> FREE_TIER_DAILY_LIMIT e = None"
    using that paid by (simp add: tierLimit_def or_default_def)
  show ?thesis
    using g f' c gq rt dflt
    by (simp add: getTodayQuota_default_tier canUserGenerate_def)
qed

theorem tierless_calls_apply_free_limit_witness:
  "tier \<lparr>u_id = 2, tier = ''paid''\<rparr> = ''paid''
   \<and> findOne (quota_store paid_world) 2 0 = Some paid_quota
   \<and> env_ok default_env
   \<and> generationsLimit paid_quota = 50
   \<and> fst (getTodayQuota default_env (quota_store paid_world) 0 2 None) =
       Inr (paid_quota\<lparr>generationsLimit := 5\<rparr>)
   \<and> findOne (quota_store (snd (get_quota default_env 0 paid_world \<lparr>u_id = 2, tier = ''paid''\<rparr>)))
       2 0 = Some (paid_quota\<lparr>generationsLimit := 5\<rparr>)"
proof -
  have paid: "tier \<lparr>u_id = 2, tier = ''paid''\<rparr> = ''paid''" by simp
  have rec: "findOne (quota_store paid_world) (u_id \<lparr>u_id = 2, tier = ''paid''\<rparr>) 0 = Some paid_quota"
    by (simp add: paid_world_def sample_world_def findOne_def paid_quota_def)
  have lim: "env_ok default_env"
    by (simp add: env_ok_def default_env_def)
  have five: "tierLimit default_env ''free'' = 5"
    by (simp add: tierLimit_def default_env_def or_default_def)
  note t = tierless_calls_apply_free_limit [OF paid rec lim]
  have a: "fst (getTodayQuota default_env (quota_store paid_world) 0 2 None) =
             Inr (paid_quota\<lparr>generationsLimit := 5\<rparr>)"
    using t [THEN conjunct2, THEN conjunct2, THEN conjunct1] by (simp add: five)
  have b: "findOne (quota_store (snd (get_quota default_env 0 paid_world
              \<lparr>u_id = 2, tier = ''paid''\<rparr>))) 2 0 = Some (paid_quota\<lparr>generationsLimit := 5\<rparr>)"
    using t [THEN conjunct2, THEN conjunct2, THEN conjunct2, THEN conjunct2, THEN conjunct2,
             THEN conjunct1]
    by (simp add: five)
  have fifty: "generationsLimit paid_quota = 50"
    by (simp add: paid_quota_def)
  from rec have rec': "findOne (quota_store paid_world) 2 0 = Some paid_quota" by simp
  show ?thesis
    using paid rec' lim fifty a b by (intro conjI)
qed


lemma outer_catch_rejected: "\<exists>c m. outer_catch err = Rejected c m"
  by (cases err) (simp_all add: outer_catch_def)

lemma admit_store:
  assumes "admit w today req = (r, w1)"
  shows "users w1 = users w \<and> gen_store w1 = gen_store w \<and> log w1 = log w"
proof (cases "valid_request req \<and> find (\<lambda>u. u_id u = r_user_id req) (users w) \<noteq> None")
  case False
  then have "w1 = w"
    using assms unfolding admit_def valid_request_def
    by (auto split: if_splits option.splits)
  then show ?thesis by simp
next
  case True
  then obtain u filename where u: "find (\<lambda>u. u_id u = r_user_id req) (users w) = Some u"
    and f: "r_file req = Some filename"
    unfolding valid_request_def by auto
  obtain q w' where rq: "route_quota w today u = (Inr q, w')"
    and same: "users w' = users w" "gen_store w' = gen_store w" "log w' = log w"
    using route_quota_ok [of w today u] by blast
  have "w1 = w'"
    using assms True u f rq unfolding admit_def valid_request_def
    by (auto split: if_splits)
  with same show ?thesis by simp
qed

lemma admit_rejects:
  assumes "admit w today req = (Inl r, w1)"
  shows "\<exists>c m. r = Rejected c m"
  using assms outer_catch_rejected unfolding admit_def
  by (auto split: if_splits option.splits prod.splits sum.splits)

lemma admit_exhausted:
  assumes rec: "findOne (quota_store w) (r_user_id req) today = Some q"
    and full: "generationsUsed q \<ge> generationsLimit q"
  shows "\<exists>c m. admit w today req = (Inl (Rejected c m), w)
           \<and> (valid_request req \<and> find (\<lambda>u. u_id u = r_user_id req) (users w) \<noteq> None \<longrightarrow>
                c = 429 \<and> m = ''Daily generation limit exceeded. Please upgrade to Pro for unlimited generations.'')"
proof (cases "valid_request req \<and> find (\<lambda>u. u_id u = r_user_id req) (users w) \<noteq> None")
  case False
  then show ?thesis
    unfolding admit_def valid_request_def
    by (auto split: if_splits option.splits)
next
  case True
  then obtain u filename where u: "find (\<lambda>u. u_id u = r_user_id req) (users w) = Some u"
    and f: "r_file req = Some filename"
    unfolding valid_request_def by auto
  from u have uid: "u_id u = r_user_id req"
    by (auto simp: find_Some_iff)
  have rq: "route_quota w today u = (Inr q, w)"
    using rec uid by (simp add: route_quota_def)
  show ?thesis
    using True u f rq full unfolding admit_def valid_request_def
    by auto
qed


section \<open>A request on an exhausted quota\<close>

text \<open>
  Whatever the request, when the user's record for today has
  \<open>generationsUsed \<ge> generationsLimit\<close> the handler changes nothing and never answers
  with a generation.
\<close>

lemma exhausted_quota_changes_nothing:
  assumes rec: "findOne (quota_store w) (r_user_id req) today = Some q"
    and full: "generationsUsed q \<ge> generationsLimit q"
  shows "snd (image_to_image gemini catalog svc now today w req) = w
       \<and> (\<forall>b. fst (image_to_image gemini catalog svc now today w req) \<noteq> Generated b)"
proof -
  obtain c m where a: "admit w today req = (Inl (Rejected c m), w)"
    using admit_exhausted [OF rec full] by blast
  show ?thesis
    by (simp add: image_to_image_def a)
qed

text \<open>
  C9. A generation request that passes the input checks (prompt
  present and at most 1000 characters, file present), from an existing user whose
  record for today has \<open>generationsUsed \<ge> generationsLimit\<close>, is answered with the
  status 429 and the limit-exceeded message; the provider is not called and nothing is
  changed: \<open>generationsUsed\<close> stays as it is.
\<close>

theorem exhausted_quota_is_rejected:
  assumes rec: "findOne (quota_store w) (r_user_id req) today = Some q"
    and full: "generationsUsed q \<ge> generationsLimit q"
    and valid: "valid_request req"
    and user: "find (\<lambda>u. u_id u = r_user_id req) (users w) \<noteq> None"
  shows "image_to_image gemini catalog svc now today w req =
           (Rejected 429
              ''Daily generation limit exceeded. Please upgrade to Pro for unlimited generations.'',
            w)
       \<and> ProviderCalled \<notin> set (added_log w (snd (image_to_image gemini catalog svc now today w req)))
       \<and> used_today (snd (image_to_image gemini catalog svc now today w req)) today (r_user_id req)
           = generationsUsed q"
proof -
  obtain c m where a: "admit w today req = (Inl (Rejected c m), w)"
    and cm: "valid_request req \<and> find (\<lambda>u. u_id u = r_user_id req) (users w) \<noteq> None \<longrightarrow>
                c = 429 \<and> m = ''Daily generation limit exceeded. Please upgrade to Pro for unlimited generations.''"
    using admit_exhausted [OF rec full] by blast
  have r: "image_to_image gemini catalog svc now today w req = (Rejected c m, w)"
    by (simp add: image_to_image_def a)
  show ?thesis
    using cm rec valid user by (simp add: r added_log_def used_today_def)
qed

theorem exhausted_quota_is_rejected_witness:
  "findOne (quota_store full_world) (r_user_id sample_request) 0 =
     Some \<lparr>q_id = 0, q_userId = 1, q_date = 0, generationsUsed = 5, generationsLimit = 5,
           resetAt = 1\<rparr>
   \<and> valid_request sample_request
   \<and> find (\<lambda>u. u_id u = r_user_id sample_request) (users full_world) \<noteq> None
   \<and> image_to_image True None (Returned (Some ''/uploads/out.jpg'') False) 100 0 full_world
       sample_request =
       (Rejected 429
          ''Daily generation limit exceeded. Please upgrade to Pro for unlimited generations.'',
        full_world)"
proof -
  let ?q = "\<lparr>q_id = 0, q_userId = 1, q_date = 0, generationsUsed = 5, generationsLimit = 5,
             resetAt = 1\<rparr>"
  have rec: "findOne (quota_store full_world) (r_user_id sample_request) 0 = Some ?q"
    by (simp add: full_world_def sample_world_def sample_request_def findOne_def)
  have full: "generationsUsed ?q \<ge> generationsLimit ?q" by simp
  have v: "valid_request sample_request"
    by (simp add: valid_request_def sample_request_def truthy_def js_string_def trim_def is_space_def)
  have u: "find (\<lambda>u. u_id u = r_user_id sample_request) (users full_world) \<noteq> None"
    by (simp add: full_world_def sample_world_def sample_request_def)
  from exhausted_quota_is_rejected [OF rec full v u, of True None
      "Returned (Some ''/uploads/out.jpg'') False" 100] rec v u
  show ?thesis by (intro conjI) simp_all
qed


section \<open>The prompt-resolution scenario\<close>

lemma scenario_image_replaced:
  "foldl (\<lambda>base (ci, pat). replace_all ci pat ''http://x/u.jpg'' base)
     ''make it look like {prompt} in the style, ref: {image}'' imagePlaceholderPatterns =
   ''make it look like {prompt} in the style, ref: http://x/u.jpg''"
  by code_simp

lemma scenario_has_prompt_token:
  "str_includes ''make it look like {prompt} in the style, ref: http://x/u.jpg'' ''{prompt}''"
  by code_simp

lemma scenario_prompt_replaced:
  "replace_first ''{prompt}'' ''sunset''
     ''make it look like {prompt} in the style, ref: http://x/u.jpg'' =
   ''make it look like sunset in the style, ref: http://x/u.jpg''"
  by code_simp

lemma scenario_has_url:
  "str_includes ''make it look like sunset in the style, ref: http://x/u.jpg'' ''http://x/u.jpg''"
  by code_simp

lemma scenario_template_has_prompt_token:
  "str_includes ''make it look like {prompt} in the style, ref: {image}'' ''{prompt}''"
  by code_simp

lemma scenario_apply_preset:
  assumes "main_prompt presetData = Some ''make it look like {prompt} in the style, ref: {image}''"
  shows "apply_preset presetData ''sunset'' ''http://x/u.jpg'' =
           ''make it look like sunset in the style, ref: http://x/u.jpg''"
  unfolding apply_preset_def Let_def assms
  by (simp only: scenario_image_replaced scenario_has_prompt_token scenario_prompt_replaced
        scenario_has_url scenario_template_has_prompt_token truthy_def js_string_def
        option.case if_True if_False simp_thms list.distinct)

text \<open>
  C10. When the preset the request names resolves to a preset whose template is
  \<open>make it look like {prompt} in the style, ref: {image}\<close>, the raw prompt is \<open>sunset\<close>
  and the URL of the uploaded image is \<open>http://x/u.jpg\<close>, the final prompt is exactly
  \<open>make it look like sunset in the style, ref: http://x/u.jpg\<close>.
\<close>

theorem prompt_resolution_scenario:
  assumes "find_preset allPrompts name = Some presetData"
    and "main_prompt presetData = Some ''make it look like {prompt} in the style, ref: {image}''"
    and "name \<noteq> []"
  shows "fst (resolve_prompt (Some allPrompts) ''sunset'' (Some name) ''http://x/u.jpg'') =
           ''make it look like sunset in the style, ref: http://x/u.jpg''"
  using assms
  by (simp add: resolve_prompt_def truthy_def js_string_def scenario_apply_preset)

theorem prompt_resolution_scenario_witness:
  "find_preset [sample_preset] ''style'' = Some sample_preset
   \<and> main_prompt sample_preset = Some ''make it look like {prompt} in the style, ref: {image}''
   \<and> ''style'' \<noteq> []
   \<and> fst (resolve_prompt (Some [sample_preset]) ''sunset'' (Some ''style'') ''http://x/u.jpg'') =
       ''make it look like sunset in the style, ref: http://x/u.jpg''"
proof -
  have f: "find_preset [sample_preset] ''style'' = Some sample_preset"
    by (simp add: find_preset_def matches_preset_def sample_preset_def)
  have m: "main_prompt sample_preset =
             Some ''make it look like {prompt} in the style, ref: {image}''"
    by (simp add: sample_preset_def)
  have n: "''style'' \<noteq> []" by simp
  from prompt_resolution_scenario [OF f m n] f m n show ?thesis by (intro conjI)
qed


section \<open>The processing step and the provider client\<close>

text \<open>The definitions a run of the handler on sample data unfolds.\<close>

lemmas route_defs =
  image_to_image_def admit_def sample_world_def sample_request_def truthy_def js_string_def
  trim_def is_space_def route_quota_def findOne_def empty_quota_db_def create_quota_def Let_def
  upload_url_def resolve_prompt_def or_else_def process_image_def is_mock_placeholder_def
  ascii_upper_def commit_def save_used_def set_used_def new_generation_def save_new_def
  validate_generation_def presetUsed_enum_def pre_save_def empty_gen_db_def used_today_def

lemma upload_url_nonempty: "upload_url req filename \<noteq> []"
  by (simp add: upload_url_def)

lemma process_image_threw:
  "process_image True (ServiceThrew m) orig w = (Inr orig, w\<lparr>log := log w @ [ProviderCalled]\<rparr>)"
  by (simp add: process_image_def Let_def)

lemma uploads_url_not_mock: "\<not> is_mock_placeholder (''/uploads/'' @ f)"
  by (simp add: is_mock_placeholder_def ascii_upper_def)

lemma process_image_local_file:
  "process_image True (Returned (Some (''/uploads/'' @ f)) ph) orig w =
     (Inr (''/uploads/'' @ f), w\<lparr>log := log w @ [ProviderCalled]\<rparr>)"
  by (simp add: process_image_def truthy_def js_string_def Let_def uploads_url_not_mock
        del: append.simps)

lemma service_catch_throws: "\<exists>m. service_catch msg = ServiceThrew m"
  by (simp add: service_catch_def)

lemma service_catch_fallback_cases:
  "(\<exists>m. service_catch_fallback msg code placeholder = ServiceThrew m)
   \<or> (\<exists>f. placeholder = Some f
          \<and> service_catch_fallback msg code placeholder = Returned (Some (''/uploads/'' @ f)) True)"
  by (cases placeholder) (simp_all add: service_catch_fallback_def generateLocalPlaceholder_def)

section \<open>Echoes\<close>

text \<open>
  The processing step yields the URL of the upload itself exactly when no client is
  configured, when the client throws, or when the client returns a mock placeholder URL
  or the URL of the upload.
\<close>

lemma process_image_echo_iff:
  "(fst (process_image gemini svc orig w) = Inr orig) =
     (\<not> gemini \<or> (\<exists>m. svc = ServiceThrew m)
      \<or> (\<exists>u ph. svc = Returned (Some u) ph \<and> u \<noteq> [] \<and> (is_mock_placeholder u \<or> u = orig)))"
proof (cases svc)
  case (Returned url ph)
  then show ?thesis
    by (cases url) (auto simp: process_image_def Let_def truthy_def js_string_def)
next
  case (ServiceThrew m)
  then show ?thesis
    by (simp add: process_image_def Let_def)
qed

lemma process_image_no_client:
  "process_image False svc orig w = (Inr orig, w)"
  by (simp add: process_image_def)

text \<open>
  C1, as the code has it. An admitted request (input checks and quota check passed, the
  stored count not negative) whose output image URL is the URL of the uploaded image
  itself (an echo: no client is configured, the client throws, or it returns a mock
  placeholder URL or the upload's URL) is answered as a success, not as an error: the
  \<open>echoedInput\<close> flag is set, the image of the answer is the upload, and the count of
  the day goes up by one. When the resolved prompt and preset name pass the schema
  validators exactly one Generation record is written, with the status \<open>completed\<close>
  and the upload's URL as generated image; otherwise none is written and the answer
  carries the stand-in id.
\<close>

theorem echo_is_flagged_charged_and_completed:
  assumes adm: "admit w today req = (Inr (filename, quota), w1)"
    and nonneg: "0 \<le> used_today w today (r_user_id req)"
    and echo: "process_image gemini svc (upload_url req filename) w1 =
                 (Inr (upload_url req filename), w2)"
  shows "\<exists>b w'. image_to_image gemini catalog svc now today w req = (Generated b, w')
       \<and> echoedInput b
       \<and> imageUrl b = Some (upload_url req filename)
       \<and> res_generationsUsed b = used_today w today (r_user_id req) + 1
       \<and> used_today w' today (r_user_id req) = used_today w today (r_user_id req) + 1
       \<and> (record_stored catalog req filename \<longrightarrow>
            (\<exists>g. added_generations w w' = [g] \<and> status g = Completed
                \<and> processingEndTime g = Some now
                \<and> generatedImageUrl g = Some (upload_url req filename)
                \<and> originalImageUrl g = Some (upload_url req filename)
                \<and> g_userId g = r_user_id req \<and> generation_id b = ObjectId (g_id g)))
       \<and> (\<not> record_stored catalog req filename \<longrightarrow>
            added_generations w w' = [] \<and> generation_id b = TempId)"
proof -
  have nn: "0 \<le> used_today w today (r_user_id req) + 1" using nonneg by simp
  from image_to_image_record [OF adm nn echo, of catalog now]
  show ?thesis by simp
qed

lemma sample_admitted:
  "admit sample_world 0 sample_request =
     (Inr (''in.jpg'', \<lparr>q_id = 0, q_userId = 1, q_date = 0, generationsUsed = 0,
                        generationsLimit = 5, resetAt = 1\<rparr>),
      sample_world\<lparr>quota_store :=
        \<lparr>quotas = [\<lparr>q_id = 0, q_userId = 1, q_date = 0, generationsUsed = 0,
                     generationsLimit = 5, resetAt = 1\<rparr>], next_id = 1\<rparr>\<rparr>)"
  by (simp add: route_defs)

lemma preset_admitted:
  "admit sample_world 0 preset_request =
     (Inr (''in.jpg'', \<lparr>q_id = 0, q_userId = 1, q_date = 0, generationsUsed = 0,
                        generationsLimit = 5, resetAt = 1\<rparr>),
      sample_world\<lparr>quota_store :=
        \<lparr>quotas = [\<lparr>q_id = 0, q_userId = 1, q_date = 0, generationsUsed = 0,
                     generationsLimit = 5, resetAt = 1\<rparr>], next_id = 1\<rparr>\<rparr>)"
  by (simp add: preset_request_def route_defs)

lemma sample_used: "used_today sample_world 0 1 = 0"
  by (simp add: used_today_def sample_world_def findOne_def empty_quota_db_def)

lemma sample_record_stored: "record_stored None sample_request ''in.jpg''"
  by (simp add: record_stored_def resolved_def storable_def resolve_prompt_def truthy_def
        sample_request_def or_else_def presetUsed_enum_def upload_url_def js_string_def)

lemma preset_name_resolved:
  "snd (resolved (Some []) preset_request ''in.jpg'') = ''Realistic Portrait''"
  by (simp add: resolved_def resolve_prompt_def truthy_def preset_request_def sample_request_def
        js_string_def find_preset_def FALLBACK_PRESETS_def or_else_def)

lemma preset_record_not_stored: "\<not> record_stored (Some []) preset_request ''in.jpg''"
  by (simp add: record_stored_def storable_def preset_name_resolved presetUsed_enum_def)

theorem echo_is_flagged_charged_and_completed_witness:
  "(\<exists>q w1. admit sample_world 0 sample_request = (Inr (''in.jpg'', q), w1)
      \<and> process_image False (ServiceThrew []) (upload_url sample_request ''in.jpg'') w1 =
          (Inr (upload_url sample_request ''in.jpg''), w1))
   \<and> 0 \<le> used_today sample_world 0 1
   \<and> record_stored None sample_request ''in.jpg''
   \<and> (\<exists>b w' g. no_client_run = (Generated b, w') \<and> echoedInput b
         \<and> imageUrl b = Some ''http://h/uploads/in.jpg''
         \<and> used_today w' 0 1 = used_today sample_world 0 1 + 1
         \<and> added_generations sample_world w' = [g] \<and> status g = Completed
         \<and> generatedImageUrl g = Some ''http://h/uploads/in.jpg''
         \<and> generation_id b = ObjectId (g_id g))
   \<and> \<not> record_stored (Some []) preset_request ''in.jpg''
   \<and> (\<exists>b w'. preset_run = (Generated b, w') \<and> echoedInput b
         \<and> used_today w' 0 1 = used_today sample_world 0 1 + 1
         \<and> added_generations sample_world w' = [] \<and> generation_id b = TempId)"
proof -
  have uid: "r_user_id sample_request = 1" "r_user_id preset_request = 1"
    by (simp_all add: sample_request_def preset_request_def)
  have nonneg: "0 \<le> used_today sample_world 0 (r_user_id sample_request)"
    unfolding uid sample_used by simp
  have nonneg': "0 \<le> used_today sample_world 0 (r_user_id preset_request)"
    unfolding uid sample_used by simp
  have url: "upload_url sample_request ''in.jpg'' = ''http://h/uploads/in.jpg''"
    by (simp add: upload_url_def sample_request_def)
  have r1: "\<exists>b w' g. no_client_run = (Generated b, w') \<and> echoedInput b
         \<and> imageUrl b = Some ''http://h/uploads/in.jpg''
         \<and> used_today w' 0 1 = used_today sample_world 0 1 + 1
         \<and> added_generations sample_world w' = [g] \<and> status g = Completed
         \<and> generatedImageUrl g = Some ''http://h/uploads/in.jpg''
         \<and> generation_id b = ObjectId (g_id g)"
    using echo_is_flagged_charged_and_completed [where gemini = False
        and svc = "ServiceThrew []" and catalog = None and now = 100,
        OF sample_admitted nonneg process_image_no_client] sample_record_stored
    unfolding no_client_run_def uid url by auto
  have r2: "\<exists>b w'. preset_run = (Generated b, w') \<and> echoedInput b
         \<and> used_today w' 0 1 = used_today sample_world 0 1 + 1
         \<and> added_generations sample_world w' = [] \<and> generation_id b = TempId"
    using echo_is_flagged_charged_and_completed [where gemini = False
        and svc = "ServiceThrew []" and catalog = "Some []" and now = 100,
        OF preset_admitted nonneg' process_image_no_client] preset_record_not_stored
    unfolding preset_run_def uid by auto
  have a: "\<exists>q w1. admit sample_world 0 sample_request = (Inr (''in.jpg'', q), w1)
      \<and> process_image False (ServiceThrew []) (upload_url sample_request ''in.jpg'') w1 =
          (Inr (upload_url sample_request ''in.jpg''), w1)"
    using sample_admitted process_image_no_client by blast
  have z: "0 \<le> used_today sample_world 0 1"
    unfolding sample_used by simp
  show ?thesis
    using a z sample_record_stored r1 preset_record_not_stored r2
    by (intro conjI)
qed

text \<open>
  The claim C1 fails on these runs, in which the output image URL is the URL of the
  upload: with no client configured, and with a client whose call fails with a network
  error. The answer is a success (not an error), the count goes from 0 to 1, and the
  record is stored as \<open>completed\<close>.
\<close>

theorem echo_counterexample:
  "generateImageFromImage (Threw (Some ''fetch failed'') None) =
     ServiceThrew ''Image-to-image generation failed: fetch failed''
   \<and> fst no_client_run =
       Generated \<lparr>echoedInput = True, generation_id = ObjectId 0,
                  imageUrl = Some ''http://h/uploads/in.jpg'',
                  res_originalImageUrl = ''http://h/uploads/in.jpg'',
                  res_prompt = ''sunset, reference image: http://h/uploads/in.jpg'',
                  res_generationsUsed = 1, res_generationsLimit = 5,
                  res_generationsRemaining = 4\<rparr>
   \<and> fst threw_run = fst no_client_run
   \<and> used_today sample_world 0 1 = 0
   \<and> used_today (snd no_client_run) 0 1 = 1
   \<and> used_today (snd threw_run) 0 1 = 1
   \<and> map status (generations (gen_store (snd no_client_run))) = [Completed]
   \<and> map status (generations (gen_store (snd threw_run))) = [Completed]"
proof -
  have s: "generateImageFromImage (Threw (Some ''fetch failed'') None) =
             ServiceThrew ''Image-to-image generation failed: fetch failed''"
    by (simp add: generateImageFromImage_def service_catch_def msg_includes_def js_string_def)
  have n: "fst no_client_run =
       Generated \<lparr>echoedInput = True, generation_id = ObjectId 0,
                  imageUrl = Some ''http://h/uploads/in.jpg'',
                  res_originalImageUrl = ''http://h/uploads/in.jpg'',
                  res_prompt = ''sunset, reference image: http://h/uploads/in.jpg'',
                  res_generationsUsed = 1, res_generationsLimit = 5,
                  res_generationsRemaining = 4\<rparr>"
    unfolding no_client_run_def by (simp add: route_defs)
  have t: "fst threw_run =
       Generated \<lparr>echoedInput = True, generation_id = ObjectId 0,
                  imageUrl = Some ''http://h/uploads/in.jpg'',
                  res_originalImageUrl = ''http://h/uploads/in.jpg'',
                  res_prompt = ''sunset, reference image: http://h/uploads/in.jpg'',
                  res_generationsUsed = 1, res_generationsLimit = 5,
                  res_generationsRemaining = 4\<rparr>"
    unfolding threw_run_def s by (simp add: route_defs)
  have u1: "used_today (snd no_client_run) 0 1 = 1"
    unfolding no_client_run_def by (simp add: route_defs)
  have u2: "used_today (snd threw_run) 0 1 = 1"
    unfolding threw_run_def s by (simp add: route_defs)
  have g1: "map status (generations (gen_store (snd no_client_run))) = [Completed]"
    unfolding no_client_run_def by (simp add: route_defs)
  have g2: "map status (generations (gen_store (snd threw_run))) = [Completed]"
    unfolding threw_run_def s by (simp add: route_defs)
  have t': "fst threw_run = fst no_client_run"
    using t n by simp
  show ?thesis
    using s n t' sample_used u1 u2 g1 g2 by (intro conjI)
qed


section \<open>Provider failures\<close>

lemma fallback_rejection_throws:
  "is_rejection msg \<Longrightarrow> \<exists>m. service_catch_fallback msg code placeholder = ServiceThrew m"
  by (auto simp: is_rejection_def service_catch_fallback_def)

lemma fallback_other_throws:
  "\<not> is_connection_error msg code \<Longrightarrow>
     \<exists>m. service_catch_fallback msg code placeholder = ServiceThrew m"
  by (auto simp: is_connection_error_def service_catch_fallback_def)

lemma fallback_returned:
  assumes "service_catch_fallback msg code placeholder = Returned u p"
  shows "\<not> is_rejection msg \<and> is_connection_error msg code
       \<and> (\<exists>f. placeholder = Some f \<and> u = Some (''/uploads/'' @ f) \<and> p)"
  using assms
  unfolding service_catch_fallback_def is_rejection_def is_connection_error_def
    generateLocalPlaceholder_def
  by (auto split: if_splits option.splits)

text \<open>
  C2, as the code has it. For an admitted request (input checks and quota check passed,
  the stored count not negative), any failure of the provider call, whatever its
  message and code, with either copy of the client, is answered as a success, and the
  count of the day goes up by one. The image of the answer is the upload itself (the
  \<open>echoedInput\<close> flag is set) whenever the client throws: always for a rejected key,
  an exceeded provider quota or a safety block, always with the first copy of the
  client, and for every failure that is not a connection error. It is the local
  placeholder only when the second copy of the client meets a connection error that is
  no rejection and writes the placeholder. When the resolved prompt and preset name
  pass the schema validators exactly one Generation record is written, with the status
  \<open>completed\<close> and that image; otherwise none is written and the answer carries the
  stand-in id.
\<close>

theorem provider_failure_is_charged_and_completed:
  assumes adm: "admit w today req = (Inr (filename, quota), w1)"
    and nonneg: "0 \<le> used_today w today (r_user_id req)"
    and svc: "svc = generateImageFromImage (Threw msg code)
              \<or> svc = generateImageFromImage_fallback (Threw msg code) placeholder"
  shows "\<exists>b w' url. image_to_image True catalog svc now today w req = (Generated b, w')
       \<and> imageUrl b = Some url
       \<and> echoedInput b = (url = upload_url req filename)
       \<and> res_generationsUsed b = used_today w today (r_user_id req) + 1
       \<and> used_today w' today (r_user_id req) = used_today w today (r_user_id req) + 1
       \<and> ((\<exists>m. svc = ServiceThrew m) \<and> url = upload_url req filename
            \<or> (\<exists>f. placeholder = Some f
                  \<and> svc = generateImageFromImage_fallback (Threw msg code) placeholder
                  \<and> svc = Returned (Some (''/uploads/'' @ f)) True
                  \<and> url = ''/uploads/'' @ f
                  \<and> is_connection_error msg code \<and> \<not> is_rejection msg))
       \<and> (is_rejection msg \<longrightarrow> url = upload_url req filename)
       \<and> (svc = generateImageFromImage (Threw msg code) \<longrightarrow> url = upload_url req filename)
       \<and> (\<not> is_connection_error msg code \<longrightarrow> url = upload_url req filename)
       \<and> (record_stored catalog req filename \<longrightarrow>
            (\<exists>g. added_generations w w' = [g] \<and> status g = Completed
                \<and> processingEndTime g = Some now \<and> generatedImageUrl g = Some url
                \<and> generation_id b = ObjectId (g_id g)))
       \<and> (\<not> record_stored catalog req filename \<longrightarrow>
            added_generations w w' = [] \<and> generation_id b = TempId)"
proof -
  let ?orig = "upload_url req filename"
  define url where "url = (case svc of ServiceThrew m \<Rightarrow> ?orig | Returned u ph \<Rightarrow> js_string u)"
  have first: "\<exists>m. svc = ServiceThrew m" if "svc = generateImageFromImage (Threw msg code)"
    using that service_catch_throws [of msg] by (simp add: generateImageFromImage_def)
  have shape: "(\<exists>m. svc = ServiceThrew m)
       \<or> (\<exists>f. placeholder = Some f
              \<and> svc = generateImageFromImage_fallback (Threw msg code) placeholder
              \<and> svc = Returned (Some (''/uploads/'' @ f)) True
              \<and> is_connection_error msg code \<and> \<not> is_rejection msg)"
  proof (cases svc)
    case (ServiceThrew m)
    then show ?thesis by simp
  next
    case (Returned u p)
    with first have nf: "svc \<noteq> generateImageFromImage (Threw msg code)" by auto
    with svc have sf: "svc = generateImageFromImage_fallback (Threw msg code) placeholder"
      by simp
    then have "service_catch_fallback msg code placeholder = Returned u p"
      using Returned by (simp add: generateImageFromImage_fallback_def)
    from fallback_returned [OF this] Returned sf show ?thesis by auto
  qed
  have rej: "\<exists>m. svc = ServiceThrew m" if "is_rejection msg"
    using that shape by auto
  have other: "\<exists>m. svc = ServiceThrew m" if "\<not> is_connection_error msg code"
    using that shape by auto
  have pi: "process_image True svc ?orig w1 = (Inr url, w1\<lparr>log := log w1 @ [ProviderCalled]\<rparr>)"
    using shape unfolding url_def
    by (auto simp: process_image_threw process_image_local_file js_string_def
          simp del: append.simps)
  have nn: "0 \<le> used_today w today (r_user_id req) + 1" using nonneg by simp
  from image_to_image_record [OF adm nn pi, of catalog now]
  obtain b w' where
    c: "image_to_image True catalog svc now today w req = (Generated b, w')"
    and e: "echoedInput b = (url = ?orig)"
    and i: "imageUrl b = Some url"
    and r: "res_generationsUsed b = used_today w today (r_user_id req) + 1"
    and u: "used_today w' today (r_user_id req) = used_today w today (r_user_id req) + 1"
    and g1: "record_stored catalog req filename \<longrightarrow>
            (\<exists>g. added_generations w w' = [g] \<and> status g = Completed
                \<and> processingEndTime g = Some now \<and> generatedImageUrl g = Some url
                \<and> originalImageUrl g = Some ?orig
                \<and> g_userId g = r_user_id req \<and> generation_id b = ObjectId (g_id g))"
    and g2: "\<not> record_stored catalog req filename \<longrightarrow>
            added_generations w w' = [] \<and> generation_id b = TempId"
    by blast
  have d: "(\<exists>m. svc = ServiceThrew m) \<and> url = ?orig
            \<or> (\<exists>f. placeholder = Some f
                  \<and> svc = generateImageFromImage_fallback (Threw msg code) placeholder
                  \<and> svc = Returned (Some (''/uploads/'' @ f)) True
                  \<and> url = ''/uploads/'' @ f
                  \<and> is_connection_error msg code \<and> \<not> is_rejection msg)"
    using shape unfolding url_def by (auto simp: js_string_def simp del: append.simps)
  have t: "url = ?orig" if "\<exists>m. svc = ServiceThrew m"
    using that unfolding url_def by auto
  have c1: "is_rejection msg \<longrightarrow> url = ?orig" using rej t by blast
  have c2: "svc = generateImageFromImage (Threw msg code) \<longrightarrow> url = ?orig"
    using first t by blast
  have c3: "\<not> is_connection_error msg code \<longrightarrow> url = ?orig" using other t by blast
  have g1': "record_stored catalog req filename \<longrightarrow>
            (\<exists>g. added_generations w w' = [g] \<and> status g = Completed
                \<and> processingEndTime g = Some now \<and> generatedImageUrl g = Some url
                \<and> generation_id b = ObjectId (g_id g))"
    using g1 by blast
  show ?thesis
    using c i e r u d c1 c2 c3 g1' g2 by blast
qed

lemma safety_is_rejection: "is_rejection (Some ''Response was blocked due to safety'')"
  by (simp add: is_rejection_def msg_includes_def)

lemma reset_placeholder:
  "generateImageFromImage_fallback (Threw (Some ''read ECONNRESET'') (Some ''ECONNRESET''))
     (Some ''placeholder-1.jpg'') = Returned (Some ''/uploads/placeholder-1.jpg'') True"
  by (simp add: generateImageFromImage_fallback_def service_catch_fallback_def msg_includes_def
        generateLocalPlaceholder_def)

lemma timeout_no_connection_error:
  "\<not> is_connection_error (Some ''Request timed out'') (Some ''ETIMEDOUT'')"
  by (simp add: is_connection_error_def msg_includes_def)

theorem provider_failure_is_charged_and_completed_witness:
  "(\<exists>q w1. admit sample_world 0 sample_request = (Inr (''in.jpg'', q), w1))
   \<and> 0 \<le> used_today sample_world 0 1
   \<and> record_stored None sample_request ''in.jpg''
   \<and> is_rejection (Some ''Response was blocked due to safety'')
   \<and> (\<exists>b w' g. safety_run = (Generated b, w') \<and> echoedInput b
         \<and> imageUrl b = Some ''http://h/uploads/in.jpg''
         \<and> used_today w' 0 1 = used_today sample_world 0 1 + 1
         \<and> added_generations sample_world w' = [g] \<and> status g = Completed
         \<and> generatedImageUrl g = Some ''http://h/uploads/in.jpg''
         \<and> generation_id b = ObjectId (g_id g))
   \<and> (\<exists>b w' g. placeholder_run = (Generated b, w') \<and> \<not> echoedInput b
         \<and> imageUrl b = Some ''/uploads/placeholder-1.jpg''
         \<and> used_today w' 0 1 = used_today sample_world 0 1 + 1
         \<and> added_generations sample_world w' = [g] \<and> status g = Completed
         \<and> generatedImageUrl g = Some ''/uploads/placeholder-1.jpg''
         \<and> generation_id b = ObjectId (g_id g))
   \<and> \<not> record_stored (Some []) preset_request ''in.jpg''
   \<and> \<not> is_connection_error (Some ''Request timed out'') (Some ''ETIMEDOUT'')
   \<and> (\<exists>b w'. preset_timeout_run = (Generated b, w') \<and> echoedInput b
         \<and> imageUrl b = Some ''http://h/uploads/in.jpg''
         \<and> used_today w' 0 1 = used_today sample_world 0 1 + 1
         \<and> added_generations sample_world w' = [] \<and> generation_id b = TempId)"
proof -
  have uid: "r_user_id sample_request = 1" "r_user_id preset_request = 1"
    by (simp_all add: sample_request_def preset_request_def)
  have nonneg: "0 \<le> used_today sample_world 0 (r_user_id sample_request)"
    unfolding uid sample_used by simp
  have nonneg': "0 \<le> used_today sample_world 0 (r_user_id preset_request)"
    unfolding uid sample_used by simp
  have url': "upload_url preset_request ''in.jpg'' = ''http://h/uploads/in.jpg''"
    by (simp add: upload_url_def preset_request_def sample_request_def)
  have r3: "\<exists>b w'. preset_timeout_run = (Generated b, w') \<and> echoedInput b
         \<and> imageUrl b = Some ''http://h/uploads/in.jpg''
         \<and> used_today w' 0 1 = used_today sample_world 0 1 + 1
         \<and> added_generations sample_world w' = [] \<and> generation_id b = TempId"
    using provider_failure_is_charged_and_completed [where catalog = "Some []" and now = 100
        and svc = "generateImageFromImage_fallback
                     (Threw (Some ''Request timed out'') (Some ''ETIMEDOUT''))
                     (Some ''placeholder-1.jpg'')"
        and msg = "Some ''Request timed out''" and code = "Some ''ETIMEDOUT''"
        and placeholder = "Some ''placeholder-1.jpg''",
        OF preset_admitted nonneg'] preset_record_not_stored timeout_no_connection_error
    unfolding preset_timeout_run_def uid url' by auto
  have url: "upload_url sample_request ''in.jpg'' = ''http://h/uploads/in.jpg''"
    by (simp add: upload_url_def sample_request_def)
  have r1: "\<exists>b w' g. safety_run = (Generated b, w') \<and> echoedInput b
         \<and> imageUrl b = Some ''http://h/uploads/in.jpg''
         \<and> used_today w' 0 1 = used_today sample_world 0 1 + 1
         \<and> added_generations sample_world w' = [g] \<and> status g = Completed
         \<and> generatedImageUrl g = Some ''http://h/uploads/in.jpg''
         \<and> generation_id b = ObjectId (g_id g)"
    using provider_failure_is_charged_and_completed [where catalog = None and now = 100
        and svc = "generateImageFromImage (Threw (Some ''Response was blocked due to safety'') None)"
        and msg = "Some ''Response was blocked due to safety''" and code = None
        and placeholder = None,
        OF sample_admitted nonneg] sample_record_stored safety_is_rejection
    unfolding safety_run_def uid url by auto
  have r2: "\<exists>b w' g. placeholder_run = (Generated b, w') \<and> \<not> echoedInput b
         \<and> imageUrl b = Some ''/uploads/placeholder-1.jpg''
         \<and> used_today w' 0 1 = used_today sample_world 0 1 + 1
         \<and> added_generations sample_world w' = [g] \<and> status g = Completed
         \<and> generatedImageUrl g = Some ''/uploads/placeholder-1.jpg''
         \<and> generation_id b = ObjectId (g_id g)"
    using provider_failure_is_charged_and_completed [where catalog = None and now = 100
        and svc = "generateImageFromImage_fallback
                     (Threw (Some ''read ECONNRESET'') (Some ''ECONNRESET''))
                     (Some ''placeholder-1.jpg'')"
        and msg = "Some ''read ECONNRESET''" and code = "Some ''ECONNRESET''"
        and placeholder = "Some ''placeholder-1.jpg''",
        OF sample_admitted nonneg] sample_record_stored
    unfolding placeholder_run_def uid url reset_placeholder by auto
  have a: "\<exists>q w1. admit sample_world 0 sample_request = (Inr (''in.jpg'', q), w1)"
    using sample_admitted by blast
  have z: "0 \<le> used_today sample_world 0 1"
    unfolding sample_used by simp
  show ?thesis
    using a z sample_record_stored safety_is_rejection r1 r2 preset_record_not_stored
      timeout_no_connection_error r3
    by (intro conjI)
qed

text \<open>
  The claim C2 fails on these runs. A safety rejection, which both copies of the client
  rethrow as such, is answered as a success: the count goes from 0 to 1 and the record
  is stored as \<open>completed\<close>, not as \<open>failed\<close>. A time-out (second copy of the client,
  with a placeholder at hand) and a connection reset (first copy) are rethrown by the
  client too: the image of the answer is the upload itself, no placeholder is
  synthesised, and the count goes from 0 to 1.
\<close>

theorem provider_failure_counterexample:
  "generateImageFromImage (Threw (Some ''Response was blocked due to safety'') None) =
     ServiceThrew ''Content blocked by safety filters''
   \<and> generateImageFromImage_fallback (Threw (Some ''Response was blocked due to safety'') None)
       (Some ''placeholder-1.jpg'') = ServiceThrew ''Content blocked by safety filters''
   \<and> fst safety_run =
       Generated \<lparr>echoedInput = True, generation_id = ObjectId 0,
                  imageUrl = Some ''http://h/uploads/in.jpg'',
                  res_originalImageUrl = ''http://h/uploads/in.jpg'',
                  res_prompt = ''sunset, reference image: http://h/uploads/in.jpg'',
                  res_generationsUsed = 1, res_generationsLimit = 5,
                  res_generationsRemaining = 4\<rparr>
   \<and> fst safety_run_fallback = fst safety_run
   \<and> used_today sample_world 0 1 = 0
   \<and> used_today (snd safety_run) 0 1 = 1
   \<and> used_today (snd safety_run_fallback) 0 1 = 1
   \<and> map status (generations (gen_store (snd safety_run))) = [Completed]
   \<and> map status (generations (gen_store (snd safety_run_fallback))) = [Completed]
   \<and> generateImageFromImage_fallback (Threw (Some ''Request timed out'') (Some ''ETIMEDOUT''))
       (Some ''placeholder-1.jpg'') =
       ServiceThrew ''Image-to-image generation failed: Request timed out''
   \<and> generateImageFromImage (Threw (Some ''read ECONNRESET'') (Some ''ECONNRESET'')) =
       ServiceThrew ''Image-to-image generation failed: read ECONNRESET''
   \<and> fst timeout_run =
       Generated \<lparr>echoedInput = True, generation_id = ObjectId 0,
                  imageUrl = Some ''http://h/uploads/in.jpg'',
                  res_originalImageUrl = ''http://h/uploads/in.jpg'',
                  res_prompt = ''sunset, reference image: http://h/uploads/in.jpg'',
                  res_generationsUsed = 1, res_generationsLimit = 5,
                  res_generationsRemaining = 4\<rparr>
   \<and> fst reset_run = fst timeout_run
   \<and> used_today (snd timeout_run) 0 1 = 1
   \<and> used_today (snd reset_run) 0 1 = 1
   \<and> map generatedImageUrl (generations (gen_store (snd timeout_run))) =
       [Some ''http://h/uploads/in.jpg'']
   \<and> map generatedImageUrl (generations (gen_store (snd reset_run))) =
       [Some ''http://h/uploads/in.jpg'']"
proof -
  have s1: "generateImageFromImage (Threw (Some ''Response was blocked due to safety'') None) =
              ServiceThrew ''Content blocked by safety filters''"
    by (simp add: generateImageFromImage_def service_catch_def msg_includes_def)
  have s2: "generateImageFromImage_fallback
              (Threw (Some ''Response was blocked due to safety'') None)
              (Some ''placeholder-1.jpg'') = ServiceThrew ''Content blocked by safety filters''"
    by (simp add: generateImageFromImage_fallback_def service_catch_fallback_def msg_includes_def)
  have s3: "generateImageFromImage_fallback
              (Threw (Some ''Request timed out'') (Some ''ETIMEDOUT''))
              (Some ''placeholder-1.jpg'') =
              ServiceThrew ''Image-to-image generation failed: Request timed out''"
    by (simp add: generateImageFromImage_fallback_def service_catch_fallback_def msg_includes_def
          js_string_def)
  have s4: "generateImageFromImage (Threw (Some ''read ECONNRESET'') (Some ''ECONNRESET'')) =
              ServiceThrew ''Image-to-image generation failed: read ECONNRESET''"
    by (simp add: generateImageFromImage_def service_catch_def msg_includes_def js_string_def)
  have r: "fst (image_to_image True None (ServiceThrew m) 100 0 sample_world sample_request) =
           Generated \<lparr>echoedInput = True, generation_id = ObjectId 0,
                  imageUrl = Some ''http://h/uploads/in.jpg'',
                  res_originalImageUrl = ''http://h/uploads/in.jpg'',
                  res_prompt = ''sunset, reference image: http://h/uploads/in.jpg'',
                  res_generationsUsed = 1, res_generationsLimit = 5,
                  res_generationsRemaining = 4\<rparr>" for m
    by (simp add: route_defs)
  have u1: "used_today (snd (image_to_image True None (ServiceThrew m) 100 0 sample_world
              sample_request)) 0 1 = 1" for m
    by (simp add: route_defs)
  have st: "map status (generations (gen_store (snd (image_to_image True None
              (ServiceThrew m) 100 0 sample_world sample_request)))) = [Completed]" for m
    by (simp add: route_defs)
  have gi: "map generatedImageUrl (generations (gen_store (snd (image_to_image True None
              (ServiceThrew m) 100 0 sample_world sample_request)))) =
              [Some ''http://h/uploads/in.jpg'']" for m
    by (simp add: route_defs)
  have a1: "fst safety_run =
       Generated \<lparr>echoedInput = True, generation_id = ObjectId 0,
                  imageUrl = Some ''http://h/uploads/in.jpg'',
                  res_originalImageUrl = ''http://h/uploads/in.jpg'',
                  res_prompt = ''sunset, reference image: http://h/uploads/in.jpg'',
                  res_generationsUsed = 1, res_generationsLimit = 5,
                  res_generationsRemaining = 4\<rparr>"
    unfolding safety_run_def s1 by (rule r)
  have a2: "fst safety_run_fallback = fst safety_run"
    unfolding safety_run_def safety_run_fallback_def s1 s2 by simp
  have a3: "used_today (snd safety_run) 0 1 = 1"
    unfolding safety_run_def s1 by (rule u1)
  have a4: "used_today (snd safety_run_fallback) 0 1 = 1"
    unfolding safety_run_fallback_def s2 by (rule u1)
  have a5: "map status (generations (gen_store (snd safety_run))) = [Completed]"
    unfolding safety_run_def s1 by (rule st)
  have a6: "map status (generations (gen_store (snd safety_run_fallback))) = [Completed]"
    unfolding safety_run_fallback_def s2 by (rule st)
  have b1: "fst timeout_run =
       Generated \<lparr>echoedInput = True, generation_id = ObjectId 0,
                  imageUrl = Some ''http://h/uploads/in.jpg'',
                  res_originalImageUrl = ''http://h/uploads/in.jpg'',
                  res_prompt = ''sunset, reference image: http://h/uploads/in.jpg'',
                  res_generationsUsed = 1, res_generationsLimit = 5,
                  res_generationsRemaining = 4\<rparr>"
    unfolding timeout_run_def s3 by (rule r)
  have b2: "fst reset_run = fst timeout_run"
    unfolding reset_run_def timeout_run_def s3 s4 r by simp
  have b3: "used_today (snd timeout_run) 0 1 = 1"
    unfolding timeout_run_def s3 by (rule u1)
  have b4: "used_today (snd reset_run) 0 1 = 1"
    unfolding reset_run_def s4 by (rule u1)
  have b5: "map generatedImageUrl (generations (gen_store (snd timeout_run))) =
              [Some ''http://h/uploads/in.jpg'']"
    unfolding timeout_run_def s3 by (rule gi)
  have b6: "map generatedImageUrl (generations (gen_store (snd reset_run))) =
              [Some ''http://h/uploads/in.jpg'']"
    unfolding reset_run_def s4 by (rule gi)
  show ?thesis
    using s1 s2 a1 a2 sample_used a3 a4 a5 a6 s3 s4 b1 b2 b3 b4 b5 b6
    by (intro conjI)
qed


section \<open>The order of the commit\<close>

lemma process_image_rejects:
  assumes "process_image gemini svc orig w = (Inl r, w')"
  shows "\<exists>c m. r = Rejected c m"
  using assms unfolding process_image_def Let_def
  by (auto split: if_splits service_result.splits)

lemma image_to_image_generated_cases:
  assumes gen: "image_to_image gemini catalog svc now today w req = (Generated b, w')"
  shows "\<exists>filename quota w1 url w2.
           admit w today req = (Inr (filename, quota), w1)
         \<and> process_image gemini svc (upload_url req filename) w1 = (Inr url, w2)
         \<and> 0 \<le> generationsUsed quota + 1"
proof -
  obtain ra w1 where a: "admit w today req = (ra, w1)"
    by (cases "admit w today req")
  show ?thesis
  proof (cases ra)
    case (Inl r)
    then obtain c m where "r = Rejected c m"
      using admit_rejects a by blast
    with gen a Inl show ?thesis
      by (simp add: image_to_image_def)
  next
    case (Inr fq)
    obtain filename quota where fq: "fq = (filename, quota)"
      by (cases fq)
    obtain rp w2 where p: "process_image gemini svc (upload_url req filename) w1 = (rp, w2)"
      by (cases "process_image gemini svc (upload_url req filename) w1")
    show ?thesis
    proof (cases rp)
      case (Inl r)
      then obtain c m where "r = Rejected c m"
        using process_image_rejects p by blast
      with gen a Inr fq p Inl show ?thesis
        by (simp add: image_to_image_def Let_def)
    next
      case (Inr url)
      have "commit now w2 req quota url (upload_url req filename)
              (fst (resolve_prompt catalog (js_string (r_prompt req)) (r_preset req)
                      (upload_url req filename)))
              (snd (resolve_prompt catalog (js_string (r_prompt req)) (r_preset req)
                      (upload_url req filename))) = (Generated b, w')"
        using gen a \<open>ra = Inr fq\<close> fq p Inr
        by (simp add: image_to_image_def Let_def)
      from commit_generated [OF this] a \<open>ra = Inr fq\<close> fq p Inr
      show ?thesis by simp
    qed
  qed
qed

text \<open>
  C3, as the code has it. In every image-to-image request answered with a generation,
  the effects after the provider call (made when the client is configured) are the
  write of the quota record with the count raised by one and then the attempt to write
  the Generation record: no write of the Generation record is attempted before the
  count is written. When that attempt fails no record is stored, the answer carries a
  stand-in id, and the raised count stays.
\<close>

theorem charge_precedes_record_write:
  assumes gen: "image_to_image gemini catalog svc now today w req = (Generated b, w')"
  shows "\<exists>qid ok.
           added_log w w' = (if gemini then [ProviderCalled] else [])
             @ [QuotaWritten qid (used_today w today (r_user_id req) + 1),
                GenerationWriteAttempted ok]
         \<and> \<not> record_written_before_charge (added_log w w')
         \<and> used_today w' today (r_user_id req) = used_today w today (r_user_id req) + 1
         \<and> res_generationsUsed b = used_today w today (r_user_id req) + 1
         \<and> (\<not> ok \<longrightarrow> added_generations w w' = [] \<and> generation_id b = TempId)"
proof -
  from image_to_image_generated_cases [OF gen]
  obtain filename quota w1 url w2 where
    adm: "admit w today req = (Inr (filename, quota), w1)"
    and pi: "process_image gemini svc (upload_url req filename) w1 = (Inr url, w2)"
    and nn: "0 \<le> generationsUsed quota + 1"
    by blast
  have nn': "0 \<le> used_today w today (r_user_id req) + 1"
    using nn admit_accepts [OF adm] by simp
  from image_to_image_generated [OF adm nn' pi, of catalog now]
  obtain b0 w0 ok where
    c: "image_to_image gemini catalog svc now today w req = (Generated b0, w0)"
    and r: "res_generationsUsed b0 = used_today w today (r_user_id req) + 1"
    and u: "used_today w0 today (r_user_id req) = used_today w today (r_user_id req) + 1"
    and l: "added_log w w0 = (if gemini then [ProviderCalled] else [])
              @ [QuotaWritten (q_id quota) (used_today w today (r_user_id req) + 1),
                 GenerationWriteAttempted ok]"
    and g2: "\<not> ok \<longrightarrow> added_generations w w0 = [] \<and> generation_id b0 = TempId"
    by blast
  have same: "b0 = b" "w0 = w'"
    using c gen by simp_all
  have order: "\<not> record_written_before_charge (added_log w w0)"
    unfolding l
    by (simp add: record_written_before_charge_def is_quota_write_def is_generation_write_def)
  show ?thesis
    using l order u r g2 unfolding same by blast
qed

theorem charge_precedes_record_write_witness:
  "fresh_run =
     (Generated \<lparr>echoedInput = False, generation_id = ObjectId 0,
                 imageUrl = Some ''/uploads/gemini-i2i-1.jpg'',
                 res_originalImageUrl = ''http://h/uploads/in.jpg'',
                 res_prompt = ''sunset, reference image: http://h/uploads/in.jpg'',
                 res_generationsUsed = 1, res_generationsLimit = 5,
                 res_generationsRemaining = 4\<rparr>, snd fresh_run)
   \<and> (\<exists>qid ok.
           added_log sample_world (snd fresh_run) =
             [ProviderCalled] @ [QuotaWritten qid (used_today sample_world 0 1 + 1),
                                 GenerationWriteAttempted ok]
         \<and> \<not> record_written_before_charge (added_log sample_world (snd fresh_run))
         \<and> used_today (snd fresh_run) 0 1 = used_today sample_world 0 1 + 1)"
proof -
  let ?b = "\<lparr>echoedInput = False, generation_id = ObjectId 0,
                 imageUrl = Some ''/uploads/gemini-i2i-1.jpg'',
                 res_originalImageUrl = ''http://h/uploads/in.jpg'',
                 res_prompt = ''sunset, reference image: http://h/uploads/in.jpg'',
                 res_generationsUsed = 1, res_generationsLimit = 5,
                 res_generationsRemaining = 4\<rparr>"
  have f: "fst fresh_run = Generated ?b"
    unfolding fresh_run_def by (simp add: route_defs)
  have h: "image_to_image True None (Returned (Some ''/uploads/gemini-i2i-1.jpg'') False) 100 0
             sample_world sample_request = (Generated ?b, snd fresh_run)"
    using f unfolding fresh_run_def by (simp add: prod_eq_iff)
  have uid: "r_user_id sample_request = 1"
    by (simp add: sample_request_def)
  from charge_precedes_record_write [OF h] h
  show ?thesis
    unfolding uid fresh_run_def [symmetric] by auto
qed

text \<open>
  The claim C3 fails on this run, a request answered with a generation: the count is
  written (from 0 to 1) before the write of the Generation record is attempted.
\<close>

theorem charge_first_counterexample:
  "fst fresh_run =
     Generated \<lparr>echoedInput = False, generation_id = ObjectId 0,
                imageUrl = Some ''/uploads/gemini-i2i-1.jpg'',
                res_originalImageUrl = ''http://h/uploads/in.jpg'',
                res_prompt = ''sunset, reference image: http://h/uploads/in.jpg'',
                res_generationsUsed = 1, res_generationsLimit = 5,
                res_generationsRemaining = 4\<rparr>
   \<and> added_log sample_world (snd fresh_run) =
       [ProviderCalled, QuotaWritten 0 1, GenerationWriteAttempted True]
   \<and> \<not> record_written_before_charge (added_log sample_world (snd fresh_run))"
  unfolding fresh_run_def
  by (simp add: route_defs added_log_def record_written_before_charge_def is_quota_write_def
        is_generation_write_def)


section \<open>The status a request leaves a Generation record in\<close>

lemma image_to_image_added_completed:
  "list_all (\<lambda>g. status g = Completed \<and> processingEndTime g \<noteq> None)
     (added_generations w (snd (image_to_image gemini catalog svc now today w req)))"
proof -
  obtain ra w1 where a: "admit w today req = (ra, w1)"
    by (cases "admit w today req")
  have s1: "gen_store w1 = gen_store w"
    using admit_store [OF a] by simp
  show ?thesis
  proof (cases ra)
    case (Inl r)
    then show ?thesis
      using a s1 by (simp add: image_to_image_def added_generations_def)
  next
    case (Inr fq)
    obtain filename quota where fq: "fq = (filename, quota)"
      by (cases fq)
    obtain rp w2 where p: "process_image gemini svc (upload_url req filename) w1 = (rp, w2)"
      by (cases "process_image gemini svc (upload_url req filename) w1")
    have s2: "gen_store w2 = gen_store w"
      using process_image_log [OF p] s1 by simp
    show ?thesis
    proof (cases rp)
      case (Inl r)
      then show ?thesis
        using a \<open>ra = Inr fq\<close> fq p s2
        by (simp add: image_to_image_def Let_def added_generations_def)
    next
      case (Inr url)
      let ?c = "commit now w2 req quota url (upload_url req filename)
              (fst (resolve_prompt catalog (js_string (r_prompt req)) (r_preset req)
                      (upload_url req filename)))
              (snd (resolve_prompt catalog (js_string (r_prompt req)) (r_preset req)
                      (upload_url req filename)))"
      have i: "image_to_image gemini catalog svc now today w req = ?c"
        using a \<open>ra = Inr fq\<close> fq p Inr by (simp add: image_to_image_def Let_def)
      show ?thesis
      proof (cases "0 \<le> generationsUsed quota + 1")
        case True
        from commit_effects [OF True, of now w2 req url "upload_url req filename"
            "fst (resolve_prompt catalog (js_string (r_prompt req)) (r_preset req)
                      (upload_url req filename))"
            "snd (resolve_prompt catalog (js_string (r_prompt req)) (r_preset req)
                      (upload_url req filename))"]
        obtain b w' ok where c: "?c = (Generated b, w')"
          and g1: "ok \<longrightarrow> (\<exists>g. added_generations w2 w' = [g] \<and> status g = Completed
                           \<and> processingEndTime g = Some now)"
          and g2: "\<not> ok \<longrightarrow> gen_store w' = gen_store w2"
          by blast
        have "added_generations w w' = added_generations w2 w'"
          using s2 by (simp add: added_generations_def)
        moreover have "list_all (\<lambda>g. status g = Completed \<and> processingEndTime g \<noteq> None)
                         (added_generations w2 w')"
          using g1 g2 by (cases ok) (auto simp: added_generations_def)
        ultimately show ?thesis
          by (simp add: i c)
      next
        case False
        then have "generationsUsed quota + 1 < 0" by simp
        from commit_refused [OF this] s2 show ?thesis
          by (simp add: i added_generations_def)
      qed
    qed
  qed
qed

lemma find_replaced_by_id:
  assumes "find (\<lambda>g. g_id g = gid \<and> g_userId g = uid) gs = Some g"
    and "g_id g' = gid" and "g_userId g' = uid"
  shows "find (\<lambda>g. g_id g = gid \<and> g_userId g = uid)
           (map (\<lambda>r. if g_id r = gid then g' else r) gs) = Some g'"
  using assms by (induction gs) (auto split: if_splits)

lemma retry_initiated:
  assumes r: "retry e now today w u gid = (RetryInitiated i st, w')"
  shows "i = gid \<and> st = Processing \<and> log w' = log w
       \<and> (\<exists>g. find (\<lambda>g. g_id g = gid \<and> g_userId g = u_id u) (generations (gen_store w)) = Some g
              \<and> status g = Failed
              \<and> find (\<lambda>g. g_id g = gid \<and> g_userId g = u_id u) (generations (gen_store w'))
                  = Some (g\<lparr>status := Processing, errorMessage := None,
                            generatedImageUrl := None\<rparr>))"
proof -
  from r obtain g where f: "find (\<lambda>g. g_id g = gid \<and> g_userId g = u_id u)
                              (generations (gen_store w)) = Some g"
    unfolding retry_def by (auto split: option.splits)
  then have k: "g_id g = gid" "g_userId g = u_id u"
    by (auto simp: find_Some_iff)
  from r f have st: "status g = Failed"
    unfolding retry_def by (auto split: if_splits)
  let ?g = "g\<lparr>status := Processing, errorMessage := None, generatedImageUrl := None\<rparr>"
  have sl: "save_loaded now (gen_store w) True ?g =
              (?g, (gen_store w)\<lparr>generations :=
                     map (\<lambda>r. if g_id r = gid then ?g else r) (generations (gen_store w))\<rparr>)"
    using k by (simp add: save_loaded_def pre_save_def Let_def)
  from r f st sl have w': "gen_store w' = (gen_store w)\<lparr>generations :=
                     map (\<lambda>r. if g_id r = gid then ?g else r) (generations (gen_store w))\<rparr>"
    and rest: "i = gid \<and> st = Processing \<and> log w' = log w"
    unfolding retry_def using k
    by (auto split: prod.splits sum.splits if_splits)
  have "find (\<lambda>g. g_id g = gid \<and> g_userId g = u_id u) (generations (gen_store w')) = Some ?g"
    unfolding w' using find_replaced_by_id [OF f, of ?g] k by simp
  with f st rest show ?thesis by blast
qed

text \<open>
  C7, as the code has it. Every Generation record an image-to-image request writes has
  the terminal status \<open>completed\<close> with its end time set (a request that fails, or whose
  write of the record fails, writes none). A retry that passes its checks resets the
  record to \<open>processing\<close> and answers that the retry is initiated, without calling
  the provider: the record is left in \<open>processing\<close>.
\<close>

theorem records_completed_retry_left_processing:
  "list_all (\<lambda>g. status g = Completed \<and> processingEndTime g \<noteq> None)
     (added_generations w (snd (image_to_image gemini catalog svc now today w req)))
   \<and> (retry e now today w u gid = (RetryInitiated i st, w') \<longrightarrow>
        st = Processing \<and> log w' = log w
        \<and> map_option status
            (find (\<lambda>g. g_id g = gid \<and> g_userId g = u_id u) (generations (gen_store w')))
            = Some Processing)"
proof -
  have "st = Processing \<and> log w' = log w
        \<and> map_option status
            (find (\<lambda>g. g_id g = gid \<and> g_userId g = u_id u) (generations (gen_store w')))
            = Some Processing"
    if "retry e now today w u gid = (RetryInitiated i st, w')"
    using retry_initiated [OF that] by auto
  then show ?thesis
    using image_to_image_added_completed by blast
qed

lemmas retry_defs =
  retry_run_def retry_def failed_world_def sample_world_def empty_gen_db_def empty_quota_db_def
  save_new_def new_generation_def validate_generation_def presetUsed_enum_def pre_save_def
  markFailed_def save_loaded_def Let_def canUserGenerate_def getTodayQuota_def tierLimit_def
  tier_arg_def or_default_def default_env_def findOne_def create_quota_def

theorem records_completed_retry_left_processing_witness:
  "retry default_env 9 0 failed_world \<lparr>u_id = 1, tier = ''free''\<rparr> 0 =
     (RetryInitiated 0 Processing, snd retry_run)
   \<and> map_option status
        (find (\<lambda>g. g_id g = 0 \<and> g_userId g = u_id \<lparr>u_id = 1, tier = ''free''\<rparr>)
           (generations (gen_store (snd retry_run)))) = Some Processing"
proof -
  have f: "fst retry_run = RetryInitiated 0 Processing"
    by (simp add: retry_defs)
  have h: "retry default_env 9 0 failed_world \<lparr>u_id = 1, tier = ''free''\<rparr> 0 =
             (RetryInitiated 0 Processing, snd retry_run)"
    using f unfolding retry_run_def by (simp add: prod_eq_iff)
  from records_completed_retry_left_processing [where e = default_env and now = 9
      and today = 0 and w = failed_world and u = "\<lparr>u_id = 1, tier = ''free''\<rparr>" and gid = 0
      and i = 0 and st = Processing and w' = "snd retry_run"] h
  show ?thesis by blast
qed

text \<open>
  The claim C7 fails on this run: the retry of a failed generation answers that the
  retry is initiated and leaves the record in \<open>processing\<close>, which is not terminal.
\<close>

theorem retry_left_processing_counterexample:
  "map status (generations (gen_store failed_world)) = [Failed]
   \<and> fst retry_run = RetryInitiated 0 Processing
   \<and> map status (generations (gen_store (snd retry_run))) = [Processing]
   \<and> \<not> terminal Processing
   \<and> log (snd retry_run) = []"
  by (simp add: retry_defs terminal_def)


section \<open>The end time of a Generation record\<close>

lemma creation_end_time_iff:
  assumes "save_new now db (st \<noteq> None) (new_generation t uid orig gen pn fp st) = (Inr g', db')"
  shows "(processingEndTime g' \<noteq> None) = terminal (status g')"
  using assms unfolding save_new_def new_generation_def pre_save_def terminal_def Let_def
  by (cases st) (auto split: option.splits if_splits)

lemma markCompleted_end_time_iff:
  assumes "markCompleted now db g url metadata = (g', db')"
  shows "(processingEndTime g' \<noteq> None) = terminal (status g')"
  using assms unfolding markCompleted_def save_loaded_def pre_save_def terminal_def Let_def
  by (auto split: option.splits if_splits)

lemma markFailed_end_time_iff:
  assumes "markFailed now db g msg = (g', db')"
  shows "(processingEndTime g' \<noteq> None) = terminal (status g')"
  using assms unfolding markFailed_def save_loaded_def pre_save_def terminal_def Let_def
  by (auto split: option.splits if_splits)

text \<open>
  C6 fails at the retry reset. The generation of \<open>failed_world\<close> was created in
  \<open>processing\<close> and marked failed at time 5, which set its end time. The retry resets
  the status, the error message and the generated URL, and saves: the stored record has
  the status \<open>processing\<close> and still the end time 5.
\<close>

theorem retry_reset_keeps_end_time:
  "map status (generations (gen_store failed_world)) = [Failed]
   \<and> map processingEndTime (generations (gen_store failed_world)) = [Some 5]
   \<and> fst retry_run = RetryInitiated 0 Processing
   \<and> map status (generations (gen_store (snd retry_run))) = [Processing]
   \<and> map processingEndTime (generations (gen_store (snd retry_run))) = [Some 5]"
  by (simp add: retry_defs)


section \<open>Interleaved calls of incrementUsage\<close>

text \<open>A call that runs its two steps without another call in between is \<open>incrementUsage\<close>.\<close>

lemma step_call_twice:
  "(case step_call e today uid t db Waiting of (c, db1) \<Rightarrow> step_call e today uid t db1 c) =
     (case incrementUsage e db today uid t of (r, db') \<Rightarrow> (Done r, db'))"
  unfolding step_call_def incrementUsage_def
  by (auto split: prod.splits sum.splits)

lemma incrementUsage_within_limit:
  assumes "incrementUsage e db today uid t = (Inr q, db')"
  shows "generationsUsed q \<le> generationsLimit q"
  using assms unfolding incrementUsage_def save_used_def
  by (auto split: prod.splits sum.splits if_splits)

text \<open>
  C4 fails on this schedule. Six calls for one user on one day with the limit 5: each
  call looks the record up before any call saves. Every call finds
  \<open>generationsUsed = 0\<close>, passes the check and saves the count 1: all six calls
  succeed, one more than the limit allows, and the stored count is 1.
\<close>

theorem incrementUsage_race:
  "tierLimit default_env (tier_arg None) = 5
   \<and> map generationsLimit (quotas race_store) = [5]
   \<and> map generationsUsed (quotas race_store) = [0]
   \<and> length (filter succeeded (snd race_run)) = 6
   \<and> map generationsLimit (quotas (fst race_run)) = [5]
   \<and> map generationsUsed (quotas (fst race_run)) = [1]"
  by (simp add: race_run_def step_call_def getTodayQuota_def tierLimit_def tier_arg_def
        or_default_def default_env_def findOne_def create_quota_def race_store_def
        save_used_def set_used_def succeeded_def Let_def)

end
